theory Spec2Isabelle
  imports Main "HOL-Library.Word" "HOL-Library.Signed_Division" "HOL-Library.Monad_Syntax"
begin

unbundle bit_operations_syntax

section \<open>The world socket of the game server: a model of WorldSocket.cpp\<close>

text \<open>
  The theory follows \<^verbatim>\<open>src/game/Server/WorldSocket.cpp\<close> function by function:
  the outbound header \<^verbatim>\<open>ServerPktHeader\<close>, \<^verbatim>\<open>SendPacket\<close>, \<^verbatim>\<open>HandleWowConnection\<close>,
  \<^verbatim>\<open>ProcessIncomingData\<close>, \<^verbatim>\<open>HandleAuthSession\<close> and \<^verbatim>\<open>HandlePing\<close>.
  Member variables of the socket, the global \<^verbatim>\<open>errno\<close>, the error log and the effects on
  the login database and the world registry are fields of one state record that every
  function takes and returns. Everything the file calls but does not define (the
  socket library, the byte buffer, the cipher, the hash, the database, the
  configuration, the enumerations) is either a field of the record \<open>env\<close>, so that every
  theorem holds for all of its values, or a small definition whose comment says what it
  stands for. The build without \<^verbatim>\<open>BUILD_ELUNA\<close> is modelled. \<^verbatim>\<open>DEBUG_LOG\<close>,
  \<^verbatim>\<open>DETAIL_LOG\<close> and packet dumps are not recorded; \<^verbatim>\<open>sLog.outError\<close> and
  \<^verbatim>\<open>BASIC_LOG\<close> are, with their format strings.
\<close>

type_synonym uint8 = "8 word"
type_synonym uint16 = "16 word"
type_synonym uint32 = "32 word"
type_synonym uint64 = "64 word"

subsection \<open>ServerPktHeader (lines 48 to 81)\<close>

text \<open>
  \<open>header\<close> holds the bytes the constructor stores into \<^verbatim>\<open>header[5]\<close>, in the order of
  \<^verbatim>\<open>headerIndex\<close>; an element that was never stored is not part of the list. The source's
  field \<^verbatim>\<open>size\<close> is called \<open>pkt_size\<close> here.
\<close>

record ServerPktHeader =
  pkt_size :: uint32
  header :: "uint8 list"

definition isLargePacket :: "ServerPktHeader \<Rightarrow> bool" where
  "isLargePacket h = (pkt_size h > 0x7FFF)"

definition getHeaderLength :: "ServerPktHeader \<Rightarrow> nat" where
  "getHeaderLength h = 2 + (if isLargePacket h then 3 else 2)"

definition ServerPktHeader_init :: "uint32 \<Rightarrow> uint16 \<Rightarrow> ServerPktHeader" where
  "ServerPktHeader_init sz cmd =
     (let h0 = \<lparr>pkt_size = sz, header = []\<rparr>;
          h1 = (if isLargePacket h0
                then h0\<lparr>header := header h0 @ [ucast (0x80 OR (0xFF AND drop_bit 16 sz))]\<rparr>
                else h0);
          h2 = h1\<lparr>header := header h1 @ [ucast (0xFF AND drop_bit 8 sz)]\<rparr>;
          h3 = h2\<lparr>header := header h2 @ [ucast (0xFF AND sz)]\<rparr>;
          h4 = h3\<lparr>header := header h3 @ [ucast (0xFF AND cmd)]\<rparr>;
          h5 = h4\<lparr>header := header h4 @ [ucast (0xFF AND drop_bit 8 cmd)]\<rparr>
      in h5)"

subsection \<open>Packets, sessions and the things the socket talks to\<close>

text \<open>
  Modelled from the spec: the reason codes of the rejection responses (sections 4.3 and
  7). The enumeration \<^verbatim>\<open>ResponseCodes\<close> is declared in SharedDefines.h, which is not
  among the sources; these are the five of its values that the file sends.
\<close>

datatype ResponseCodes =
  AUTH_FAILED | AUTH_UNAVAILABLE | AUTH_VERSION_MISMATCH | AUTH_UNKNOWN_ACCOUNT | AUTH_BANNED

text \<open>
  Modelled from the spec: a message is an opcode and body bytes (section 6).
  \<^verbatim>\<open>WorldPacket\<close> and \<^verbatim>\<open>ByteBuffer\<close> are not among the sources, and the byte image
  of a typed write is theirs to decide, so the buffer is kept as the sequence of write
  calls the file makes on it: \<^verbatim>\<open>WriteBit(b)\<close>, \<^verbatim>\<open>operator<<\<close> on a \<^verbatim>\<open>uint8\<close>, on
  a \<^verbatim>\<open>uint8\<close> cast of a response code and on a \<^verbatim>\<open>uint32\<close>, and
  \<^verbatim>\<open>append(ptr, len)\<close> of raw bytes. \<^verbatim>\<open>Initialize\<close> empties the buffer and sets the
  opcode.
\<close>

datatype wire_item =
  WriteBit bool
  | PutU8 uint8
  | PutCode ResponseCodes
  | PutU32 uint32
  | Append "uint8 list"

record WorldPacket =
  m_opcode :: uint32
  storage :: "wire_item list"

definition WorldPacket_new :: "uint32 \<Rightarrow> WorldPacket" where
  "WorldPacket_new opc = \<lparr>m_opcode = opc, storage = []\<rparr>"

definition Initialize :: "uint32 \<Rightarrow> WorldPacket \<Rightarrow> WorldPacket" where
  "Initialize opc p = \<lparr>m_opcode = opc, storage = []\<rparr>"

definition put :: "wire_item \<Rightarrow> WorldPacket \<Rightarrow> WorldPacket" where
  "put w p = p\<lparr>storage := storage p @ [w]\<rparr>"

text \<open>
  The bytes a received packet is read from. \<^verbatim>\<open>ProcessIncomingData\<close> builds a received
  packet with at most one \<^verbatim>\<open>append\<close>, and only received packets are read.
\<close>

definition received_bytes :: "WorldPacket \<Rightarrow> uint8 list" where
  "received_bytes p = (case storage p of [Append bs] \<Rightarrow> bs | _ \<Rightarrow> [])"

text \<open>
  Modelled from the spec: the inbound header, fixed at six bytes, whose field \<^verbatim>\<open>cmd\<close>
  occupies four of them (section 6). \<^verbatim>\<open>ClientPktHeader\<close> is declared in WorldSocket.h,
  which is not among the sources. The file reads and decrypts
  \<^verbatim>\<open>sizeof(ClientPktHeader)\<close> bytes, compares \<^verbatim>\<open>cmd\<close> with the 32-bit value
  \<^verbatim>\<open>0x4C524F57\<close>, speaks of the four byte opcode, and keeps \<^verbatim>\<open>size - 4\<close> in a
  \<^verbatim>\<open>uint16\<close>: so the structure is two bytes of size, converted with
  \<^verbatim>\<open>EndianConvertReverse\<close> (big-endian on the wire), then four bytes of opcode,
  converted with \<^verbatim>\<open>EndianConvert\<close> (little-endian on the wire). The source's fields
  \<^verbatim>\<open>size\<close> and \<^verbatim>\<open>cmd\<close> are called \<open>hdr_size\<close> and \<open>hdr_cmd\<close>.
\<close>

record ClientPktHeader =
  hdr_size :: uint16
  hdr_cmd :: uint32

fun ClientPktHeader_of_bytes :: "uint8 list \<Rightarrow> ClientPktHeader" where
  "ClientPktHeader_of_bytes [b0, b1, b2, b3, b4, b5] =
     \<lparr>hdr_size = push_bit 8 (ucast b0) OR ucast b1,
      hdr_cmd = ucast b2 OR push_bit 8 (ucast b3) OR push_bit 16 (ucast b4) OR push_bit 24 (ucast b5)\<rparr>"
| "ClientPktHeader_of_bytes _ = \<lparr>hdr_size = 0, hdr_cmd = 0\<rparr>"

text \<open>
  The fields \<^verbatim>\<open>fields[0]\<close> to \<^verbatim>\<open>fields[9]\<close> of the row that the account query selects,
  with the types the file reads them at.
\<close>

record account_row =
  f_id :: uint32
  f_gmlevel :: uint16
  f_sessionkey :: string
  f_lockedIp :: string
  f_locked :: uint8
  f_v :: string
  f_s :: string
  f_expansion :: uint8
  f_mutetime :: uint64
  f_locale :: uint8

text \<open>
  Modelled from the spec: the session (section 3: account id, security level, expansion
  tier, locale, mute expiry, latency estimate) with its inbound queue (section 5).
  \<^verbatim>\<open>WorldSession\<close> is not among the sources. The fields are the arguments of its
  constructor as the file passes them, the latency and client time delay that
  \<^verbatim>\<open>HandlePing\<close> sets, the queue that \<^verbatim>\<open>QueuePacket\<close> appends to and the add-on data
  handed to \<^verbatim>\<open>ReadAddonsInfo\<close>. \<^verbatim>\<open>LoadGlobalAccountData\<close> and
  \<^verbatim>\<open>LoadTutorialsData\<close> fill tables inside the session from the database and leave no
  trace in this model.
\<close>

record WorldSession =
  s_accountId :: uint32
  s_security :: uint16
  s_expansion :: uint32
  s_mutetime :: uint64
  s_locale :: uint8
  s_latency :: uint32
  s_clientTimeDelay :: uint32
  s_recvQueue :: "WorldPacket list"
  s_addons :: "uint8 list"

datatype errno_t = E_OTHER | EBADMSG | EINVAL

datatype log_entry = outError string | BASIC_LOG string

datatype ByteBufferException = ByteBufferException

text \<open>One call of \<^verbatim>\<open>Write\<close>: the header bytes as sent, the packet whose contents follow
  them, and whether \<^verbatim>\<open>ForceFlushOut\<close> was called after it.\<close>

record out_frame =
  frame_header :: "uint8 list"
  frame_packet :: WorldPacket
  frame_immediate :: bool

text \<open>
  What the file takes from its surroundings. Opcodes.h, Common.h and SharedDefines.h give
  the numeric constants; \<^verbatim>\<open>sWorld\<close> gives the configuration; \<^verbatim>\<open>LoginDatabase\<close> answers
  the two queries; \<^verbatim>\<open>Sha1Hash\<close> computes the digest over account name, \<^verbatim>\<open>t\<close>, client
  seed, server seed and \<^verbatim>\<open>K\<close>; \<^verbatim>\<open>AuthCrypt\<close> is a stream cipher with a state of type
  \<open>'c\<close> that is advanced byte by byte. \<open>MSG_NULL_ACTION\<close> is the opcode of a
  default-constructed packet. \<open>ticks_per_second\<close> is the period of
  \<^verbatim>\<open>std::chrono::system_clock\<close>. \<^verbatim>\<open>BigNumber\<close> values are kept as the hexadecimal
  strings they are parsed from.
\<close>

record 'c env =
  CMSG_AUTH_SESSION :: uint32
  CMSG_PING :: uint32
  CMSG_KEEP_ALIVE :: uint32
  SMSG_AUTH_RESPONSE :: uint32
  SMSG_AUTH_CHALLENGE :: uint32
  SMSG_PONG :: uint32
  MSG_NULL_ACTION :: uint32
  SEC_PLAYER :: uint16
  SEC_ADMINISTRATOR :: uint16
  MAX_LOCALE :: uint8
  LOCALE_enUS :: uint8
  CONFIG_UINT32_EXPANSION :: uint32
  CONFIG_UINT32_MAX_OVERSPEED_PINGS :: uint32
  CONFIG_BOOL_KICK_PLAYER_ON_BAD_PACKET :: bool
  GetPlayerSecurityLimit :: uint16
  IsAcceptableClientBuild :: "uint16 \<Rightarrow> bool"
  escape_string :: "string \<Rightarrow> string"
  account_query :: "string \<Rightarrow> account_row option"
  ban_query :: "uint32 \<Rightarrow> string \<Rightarrow> bool"
  sha_digest :: "string \<Rightarrow> uint32 \<Rightarrow> uint32 \<Rightarrow> uint32 \<Rightarrow> string \<Rightarrow> uint8 list"
  crypt_Init :: "string \<Rightarrow> 'c"
  recv_byte :: "'c \<Rightarrow> uint8 \<Rightarrow> uint8 \<times> 'c"
  send_byte :: "'c \<Rightarrow> uint8 \<Rightarrow> uint8 \<times> 'c"
  ByteBuffer_size :: "wire_item list \<Rightarrow> nat"
  ticks_per_second :: int

text \<open>
  The socket. Its first five fields are modelled from the spec: the connection's inbound
  buffer, outbound buffer and stream state (section 3), which the base class
  \<^verbatim>\<open>Socket\<close>, not among the sources, holds and the file reaches through \<^verbatim>\<open>Read\<close>,
  \<^verbatim>\<open>ReadSkip\<close>, \<^verbatim>\<open>ReadLengthRemaining\<close>, \<^verbatim>\<open>InPeak\<close>, \<^verbatim>\<open>Write\<close>,
  \<^verbatim>\<open>IsClosed\<close> and \<^verbatim>\<open>GetRemoteAddress\<close>. Then come the members of
  \<^verbatim>\<open>WorldSocket\<close> under their own names, and the global state the file writes:
  \<^verbatim>\<open>errno\<close>, the log, the rows inserted into \<^verbatim>\<open>account_logons\<close> and the sessions
  handed to \<^verbatim>\<open>sWorld.AddSession\<close> (by account id). \<open>m_crypt\<close> is \<open>None\<close> until
  \<^verbatim>\<open>Init\<close> is called; until then the cipher passes bytes through unchanged (section
  4.2).
\<close>

record 'c WorldSocket =
  inBuffer :: "uint8 list"
  readPosition :: nat
  isClosed :: bool
  outBuffer :: "out_frame list"
  remoteAddress :: string
  m_crypt :: "'c option"
  m_lastPingTime :: int
  m_overSpeedPings :: uint32
  m_useExistingHeader :: bool
  m_existingHeader :: ClientPktHeader
  m_session :: "WorldSession option"
  m_seed :: uint32
  m_s :: string
  errno :: errno_t
  sLog :: "log_entry list"
  account_logons :: "(uint32 \<times> string) list"
  world_sessions :: "uint32 list"

subsection \<open>The socket library and the cipher, as the file uses them\<close>

text \<open>
  Modelled from the spec: the inbound buffer with its read position (section 4.1: bytes
  are consumed from the front, a header can be given back and skipped on the next pass,
  and a read of more than is buffered reports that more data is needed). \<^verbatim>\<open>Socket\<close> is
  not among the sources. \<open>ReadLengthRemaining\<close> is the number of unread bytes, \<open>InPeak\<close>
  the unread bytes, \<open>ReadSkip\<close> moves the read position by a signed amount.
\<close>

definition ReadLengthRemaining :: "'c WorldSocket \<Rightarrow> nat" where
  "ReadLengthRemaining s = length (inBuffer s) - readPosition s"

definition InPeak :: "'c WorldSocket \<Rightarrow> uint8 list" where
  "InPeak s = drop (readPosition s) (inBuffer s)"

definition ReadSkip :: "int \<Rightarrow> 'c WorldSocket \<Rightarrow> 'c WorldSocket" where
  "ReadSkip n s = s\<lparr>readPosition := nat (int (readPosition s) + n)\<rparr>"

text \<open>\<^verbatim>\<open>Read(buffer, length)\<close>: fails, consuming nothing, when fewer bytes are buffered.\<close>

definition Read :: "nat \<Rightarrow> 'c WorldSocket \<Rightarrow> (uint8 list \<times> 'c WorldSocket) option" where
  "Read n s =
     (if ReadLengthRemaining s < n then None
      else Some (take n (InPeak s), s\<lparr>readPosition := readPosition s + n\<rparr>))"

text \<open>Bytes arriving from the peer are appended to the inbound buffer.\<close>

definition receive :: "uint8 list \<Rightarrow> 'c WorldSocket \<Rightarrow> 'c WorldSocket" where
  "receive bytes s = s\<lparr>inBuffer := inBuffer s @ bytes\<rparr>"

text \<open>
  Modelled from the spec: the cipher state (sections 3 and 4.2), a keyed stream cipher
  that works on the header bytes in order and keeps its position from one message to the
  next, and that passes bytes through unchanged until it is keyed. \<^verbatim>\<open>AuthCrypt\<close> is not
  among the sources; what it does to one byte in either direction is a field of \<open>env\<close>.
\<close>

fun crypt_bytes :: "('c \<Rightarrow> uint8 \<Rightarrow> uint8 \<times> 'c) \<Rightarrow> 'c \<Rightarrow> uint8 list \<Rightarrow> uint8 list \<times> 'c" where
  "crypt_bytes f c [] = ([], c)"
| "crypt_bytes f c (b # bs) =
     (case f c b of (b', c') \<Rightarrow> (case crypt_bytes f c' bs of (bs', c'') \<Rightarrow> (b' # bs', c'')))"

definition DecryptRecv :: "'c env \<Rightarrow> 'c option \<Rightarrow> uint8 list \<Rightarrow> uint8 list \<times> 'c option" where
  "DecryptRecv env crypt bytes =
     (case crypt of
        None \<Rightarrow> (bytes, None)
      | Some c \<Rightarrow> (case crypt_bytes (recv_byte env) c bytes of (out, c') \<Rightarrow> (out, Some c')))"

definition EncryptSend :: "'c env \<Rightarrow> 'c option \<Rightarrow> uint8 list \<Rightarrow> uint8 list \<times> 'c option" where
  "EncryptSend env crypt bytes =
     (case crypt of
        None \<Rightarrow> (bytes, None)
      | Some c \<Rightarrow> (case crypt_bytes (send_byte env) c bytes of (out, c') \<Rightarrow> (out, Some c')))"

subsection \<open>WorldSocket: constructor, SendPacket, HandleWowConnection\<close>

text \<open>\<^verbatim>\<open>time_point::min()\<close>, the value of \<open>m_lastPingTime\<close> before the first ping.\<close>

definition time_point_min :: int where
  "time_point_min = - (2 ^ 63)"

definition WorldSocket_init :: "string \<Rightarrow> uint32 \<Rightarrow> 'c WorldSocket" where
  "WorldSocket_init address seed =
     \<lparr>inBuffer = [], readPosition = 0, isClosed = False, outBuffer = [],
      remoteAddress = address, m_crypt = None, m_lastPingTime = time_point_min,
      m_overSpeedPings = 0, m_useExistingHeader = False,
      m_existingHeader = \<lparr>hdr_size = 0, hdr_cmd = 0\<rparr>, m_session = None, m_seed = seed,
      m_s = [], errno = E_OTHER, sLog = [], account_logons = [], world_sessions = []\<rparr>"

definition SendPacket :: "'c env \<Rightarrow> WorldPacket \<Rightarrow> bool \<Rightarrow> 'c WorldSocket \<Rightarrow> 'c WorldSocket" where
  "SendPacket env pct immediate s =
     (if isClosed s then s
      else
        let h = ServerPktHeader_init (of_nat (ByteBuffer_size env (storage pct)) + 2)
                  (ucast (m_opcode pct))
        in case EncryptSend env (m_crypt s) (take (getHeaderLength h) (header h)) of
             (bytes, crypt') \<Rightarrow>
               s\<lparr>m_crypt := crypt',
                 outBuffer := outBuffer s @
                   [\<lparr>frame_header = bytes, frame_packet = pct, frame_immediate = immediate\<rparr>]\<rparr>)"

text \<open>
  The string that \<^verbatim>\<open>HandleWowConnection\<close> extracts from the packet is not used, and
  extracting a string does not throw.
\<close>

definition HandleWowConnection ::
  "'c env \<Rightarrow> WorldPacket \<Rightarrow> 'c WorldSocket \<Rightarrow> ByteBufferException + bool \<times> 'c WorldSocket" where
  "HandleWowConnection env recvPacket s =
     (let packet = WorldPacket_new (SMSG_AUTH_CHALLENGE env);
          packet = foldl (\<lambda>p i. put (PutU32 0) p) packet [0 ..< 8];
          packet = put (PutU32 (m_seed s)) packet;
          packet = put (PutU8 1) packet
      in Inr (True, SendPacket env packet False s))"

subsection \<open>Reading a received packet\<close>

text \<open>
  Modelled from the spec: a body-parsing exception is raised while a reserved opcode is
  handled when the body is too short for the fixed layout (sections 4.3 and 4.5).
  \<^verbatim>\<open>ByteBuffer\<close> is not among the sources. Its extraction operators are given on the
  bytes that are still unread: each returns the value and the rest, or \<open>None\<close> where
  \<^verbatim>\<open>ByteBufferException\<close> is thrown because too few bytes are left. Multi-byte values
  are little-endian. A string of a given length is that many bytes.
\<close>

definition read_skip :: "nat \<Rightarrow> uint8 list \<Rightarrow> uint8 list option" where
  "read_skip n bs = (if length bs < n then None else Some (drop n bs))"

definition read_bytes :: "nat \<Rightarrow> uint8 list \<Rightarrow> (uint8 list \<times> uint8 list) option" where
  "read_bytes n bs = (if length bs < n then None else Some (take n bs, drop n bs))"

fun read_uint8 :: "uint8 list \<Rightarrow> (uint8 \<times> uint8 list) option" where
  "read_uint8 (b # bs) = Some (b, bs)"
| "read_uint8 [] = None"

fun read_uint16 :: "uint8 list \<Rightarrow> (uint16 \<times> uint8 list) option" where
  "read_uint16 (b0 # b1 # bs) = Some (ucast b0 OR push_bit 8 (ucast b1), bs)"
| "read_uint16 _ = None"

fun read_uint32 :: "uint8 list \<Rightarrow> (uint32 \<times> uint8 list) option" where
  "read_uint32 (b0 # b1 # b2 # b3 # bs) =
     Some (ucast b0 OR push_bit 8 (ucast b1) OR push_bit 16 (ucast b2) OR push_bit 24 (ucast b3), bs)"
| "read_uint32 _ = None"

definition ReadString :: "nat \<Rightarrow> uint8 list \<Rightarrow> (string \<times> uint8 list) option" where
  "ReadString n bs =
     (if length bs < n then None
      else Some (map (\<lambda>b. char_of (unat b)) (take n bs), drop n bs))"

text \<open>The values \<^verbatim>\<open>HandleAuthSession\<close> extracts from the credentials message.\<close>

record auth_fields =
  digest :: "uint8 list"
  clientBuild :: uint16
  clientSeed :: uint32
  addonsData :: "uint8 list"
  accountName :: string

text \<open>Lines 300 to 342, one line per extraction, in the order of the source.\<close>

definition read_auth_session :: "uint8 list \<Rightarrow> auth_fields option" where
  "read_auth_session recvPacket = do {
     bs \<leftarrow> read_skip 4 recvPacket;
     bs \<leftarrow> read_skip 4 bs;
     bs \<leftarrow> read_skip 1 bs;
     (d10, bs) \<leftarrow> read_uint8 bs;
     (d18, bs) \<leftarrow> read_uint8 bs;
     (d12, bs) \<leftarrow> read_uint8 bs;
     (d5, bs) \<leftarrow> read_uint8 bs;
     bs \<leftarrow> read_skip 8 bs;
     (d15, bs) \<leftarrow> read_uint8 bs;
     (d9, bs) \<leftarrow> read_uint8 bs;
     (d19, bs) \<leftarrow> read_uint8 bs;
     (d4, bs) \<leftarrow> read_uint8 bs;
     (d7, bs) \<leftarrow> read_uint8 bs;
     (d16, bs) \<leftarrow> read_uint8 bs;
     (d3, bs) \<leftarrow> read_uint8 bs;
     (build, bs) \<leftarrow> read_uint16 bs;
     (d8, bs) \<leftarrow> read_uint8 bs;
     bs \<leftarrow> read_skip 4 bs;
     bs \<leftarrow> read_skip 1 bs;
     (d17, bs) \<leftarrow> read_uint8 bs;
     (d6, bs) \<leftarrow> read_uint8 bs;
     (d0, bs) \<leftarrow> read_uint8 bs;
     (d1, bs) \<leftarrow> read_uint8 bs;
     (d11, bs) \<leftarrow> read_uint8 bs;
     (seed, bs) \<leftarrow> read_uint32 bs;
     (d2, bs) \<leftarrow> read_uint8 bs;
     bs \<leftarrow> read_skip 4 bs;
     (d14, bs) \<leftarrow> read_uint8 bs;
     (d13, bs) \<leftarrow> read_uint8 bs;
     (m_addonSize, bs) \<leftarrow> read_uint32 bs;
     (addons, bs) \<leftarrow> read_bytes (unat m_addonSize) bs;
     (nameLenHigh, bs) \<leftarrow> read_uint8 bs;
     (nameLenLow, bs) \<leftarrow> read_uint8 bs;
     (name, bs) \<leftarrow> ReadString (unat (push_bit 5 nameLenHigh OR drop_bit 3 nameLenLow)) bs;
     Some \<lparr>digest = [d0, d1, d2, d3, d4, d5, d6, d7, d8, d9,
                       d10, d11, d12, d13, d14, d15, d16, d17, d18, d19],
           clientBuild = build, clientSeed = seed, addonsData = addons, accountName = name\<rparr>
   }"

text \<open>Lines 548 and 549: \<^verbatim>\<open>ping\<close>, then \<^verbatim>\<open>latency\<close>.\<close>

definition read_ping :: "uint8 list \<Rightarrow> (uint32 \<times> uint32) option" where
  "read_ping recvPacket = do {
     (ping, bs) \<leftarrow> read_uint32 recvPacket;
     (latency, bs) \<leftarrow> read_uint32 bs;
     Some (ping, latency)
   }"

subsection \<open>HandleAuthSession (lines 287 to 540)\<close>

text \<open>
  The extractions come first and are the only statements that can throw, so an
  exception leaves the socket as it was. \<open>packet\<close> is the default-constructed local of
  line 298, \<open>fields'\<close> the fetched row \<^verbatim>\<open>fields\<close>; \<open>Packet\<close> is the second local that line 479 declares. \<^verbatim>\<open>strcmp\<close> on two
  strings is their inequality, \<^verbatim>\<open>memcmp\<close> over 20 bytes the inequality of the first 20
  bytes.
\<close>

definition HandleAuthSession ::
  "'c env \<Rightarrow> WorldPacket \<Rightarrow> 'c WorldSocket \<Rightarrow> ByteBufferException + bool \<times> 'c WorldSocket" where
  "HandleAuthSession env recvPacket s =
     (let packet = WorldPacket_new (MSG_NULL_ACTION env) in
      case read_auth_session (received_bytes recvPacket) of
        None \<Rightarrow> Inl ByteBufferException
      | Some f \<Rightarrow>
        if \<not> IsAcceptableClientBuild env (clientBuild f) then
          let packet = Initialize (SMSG_AUTH_RESPONSE env) packet;
              packet = put (WriteBit False) packet;
              packet = put (WriteBit False) packet;
              packet = put (PutCode AUTH_VERSION_MISMATCH) packet;
              s = SendPacket env packet False s;
              s = s\<lparr>sLog := sLog s @ [outError
                    ''WorldSocket::HandleAuthSession: Sent Auth Response (version mismatch).'']\<rparr>
          in Inr (False, s)
        else
          let safe_account = escape_string env (accountName f) in
          case account_query env safe_account of
            None \<Rightarrow>
              let packet = Initialize (SMSG_AUTH_RESPONSE env) packet;
                  packet = put (WriteBit False) packet;
                  packet = put (WriteBit False) packet;
                  packet = put (PutCode AUTH_UNKNOWN_ACCOUNT) packet;
                  s = SendPacket env packet False s;
                  s = s\<lparr>sLog := sLog s @ [outError
                        ''WorldSocket::HandleAuthSession: Sent Auth Response (unknown account).'']\<rparr>
              in Inr (False, s)
          | Some fields' \<Rightarrow>
              let expansion =
                    (if CONFIG_UINT32_EXPANSION env > ucast (f_expansion fields')
                     then ucast (f_expansion fields') else CONFIG_UINT32_EXPANSION env);
                  s = s\<lparr>m_s := f_s fields'\<rparr>
              in
              if f_locked fields' = 1 \<and> f_lockedIp fields' \<noteq> remoteAddress s then
                let packet = Initialize (SMSG_AUTH_RESPONSE env) packet;
                    packet = put (WriteBit False) packet;
                    packet = put (WriteBit False) packet;
                    packet = put (PutCode AUTH_FAILED) packet;
                    s = SendPacket env packet False s;
                    s = s\<lparr>sLog := sLog s @ [BASIC_LOG
                          ''WorldSocket::HandleAuthSession: Sent Auth Response (Account IP differs).'']\<rparr>
                in Inr (False, s)
              else
                let id = f_id fields';
                    security =
                      (if f_gmlevel fields' > SEC_ADMINISTRATOR env
                       then SEC_ADMINISTRATOR env else f_gmlevel fields');
                    K = f_sessionkey fields';
                    mutetime = f_mutetime fields';
                    tempLoc = f_locale fields';
                    locale = (if tempLoc \<ge> MAX_LOCALE env then LOCALE_enUS env else tempLoc)
                in
                if ban_query env id (remoteAddress s) then
                  let packet = Initialize (SMSG_AUTH_RESPONSE env) packet;
                      packet = put (WriteBit False) packet;
                      packet = put (WriteBit False) packet;
                      packet = put (PutCode AUTH_BANNED) packet;
                      s = SendPacket env packet False s;
                      s = s\<lparr>sLog := sLog s @ [outError
                            ''WorldSocket::HandleAuthSession: Sent Auth Response (Account banned).'']\<rparr>
                  in Inr (False, s)
                else
                  let allowedAccountType = GetPlayerSecurityLimit env in
                  if allowedAccountType > SEC_PLAYER env \<and> security < allowedAccountType then
                    let Packet = WorldPacket_new (SMSG_AUTH_RESPONSE env);
                        packet = put (WriteBit False) packet;
                        packet = put (WriteBit False) packet;
                        Packet = put (PutCode AUTH_UNAVAILABLE) Packet;
                        s = SendPacket env packet False s;
                        s = s\<lparr>sLog := sLog s @ [BASIC_LOG
                              ''WorldSocket::HandleAuthSession: User tries to login but his security level is not enough'']\<rparr>
                    in Inr (False, s)
                  else
                    if take 20 (sha_digest env (accountName f) 0 (clientSeed f) (m_seed s) K)
                         \<noteq> digest f then
                      let packet = Initialize (SMSG_AUTH_RESPONSE env) packet;
                          packet = put (WriteBit False) packet;
                          packet = put (WriteBit False) packet;
                          packet = put (PutCode AUTH_FAILED) packet;
                          s = SendPacket env packet False s;
                          s = s\<lparr>sLog := sLog s @ [outError
                                ''WorldSocket::HandleAuthSession: Sent Auth Response (authentification failed).'']\<rparr>
                      in Inr (False, s)
                    else
                      let address = remoteAddress s;
                          s = s\<lparr>account_logons := account_logons s @ [(id, address)]\<rparr>;
                          session =
                            \<lparr>s_accountId = id, s_security = security, s_expansion = expansion,
                             s_mutetime = mutetime, s_locale = locale, s_latency = 0,
                             s_clientTimeDelay = 0, s_recvQueue = [], s_addons = []\<rparr>;
                          s = s\<lparr>m_session := Some session\<rparr>;
                          s = s\<lparr>m_crypt := Some (crypt_Init env K)\<rparr>;
                          s = s\<lparr>m_session := Some (session\<lparr>s_addons := addonsData f\<rparr>)\<rparr>;
                          s = s\<lparr>world_sessions := world_sessions s @ [id]\<rparr>
                      in Inr (True, s))"

subsection \<open>HandlePing (lines 542 to 601)\<close>

text \<open>
  \<open>now\<close> is the reading of \<^verbatim>\<open>system_clock::now()\<close>, in ticks; time points are integers
  without a bound, so the difference of two of them does not overflow.
  \<^verbatim>\<open>duration_cast\<close> to seconds divides the tick count by the ticks per second and
  truncates towards zero. \<open>m_overSpeedPings\<close> is a \<^verbatim>\<open>uint32\<close> and wraps around. The
  first stage (lines 551 to 578) either returns early (\<open>Inl\<close>) or goes on to the
  critical section (\<open>Inr\<close>).
\<close>

definition HandlePing ::
  "'c env \<Rightarrow> int \<Rightarrow> WorldPacket \<Rightarrow> 'c WorldSocket \<Rightarrow> ByteBufferException + bool \<times> 'c WorldSocket" where
  "HandlePing env now recvPacket s =
     (case read_ping (received_bytes recvPacket) of
        None \<Rightarrow> Inl ByteBufferException
      | Some (ping, latency) \<Rightarrow>
        let timing =
          (if m_lastPingTime s = time_point_min then Inr (s\<lparr>m_lastPingTime := now\<rparr>)
           else
             let seconds = (now - m_lastPingTime s) sdiv ticks_per_second env;
                 s = s\<lparr>m_lastPingTime := now\<rparr>
             in
             if seconds < 27 then
               let s = s\<lparr>m_overSpeedPings := m_overSpeedPings s + 1\<rparr>;
                   max_count = CONFIG_UINT32_MAX_OVERSPEED_PINGS env
               in
               if max_count \<noteq> 0 \<and> m_overSpeedPings s > max_count \<and>
                  (case m_session s of
                     None \<Rightarrow> False
                   | Some session \<Rightarrow> s_security session = SEC_PLAYER env)
               then Inl (s\<lparr>sLog := sLog s @ [outError
                      ''WorldSocket::HandlePing: Player kicked for overspeeded pings address = %s'']\<rparr>)
               else Inr s
             else Inr (s\<lparr>m_overSpeedPings := 0\<rparr>))
        in
        case timing of
          Inl s \<Rightarrow> Inr (False, s)
        | Inr s \<Rightarrow>
          (case m_session s of
             Some session \<Rightarrow>
               let s = s\<lparr>m_session := Some (session\<lparr>s_latency := latency, s_clientTimeDelay := 0\<rparr>)\<rparr>;
                   packet = put (PutU32 ping) (WorldPacket_new (SMSG_PONG env))
               in Inr (True, SendPacket env packet True s)
           | None \<Rightarrow>
               Inr (False, s\<lparr>sLog := sLog s @ [outError
                 ''WorldSocket::HandlePing: peer sent CMSG_PING, but is not authenticated or got recently kicked, address = %s'']\<rparr>)))"

subsection \<open>ProcessIncomingData (lines 148 to 285)\<close>

text \<open>
  Lines 150 to 171: the header, either the one kept from the last attempt or six bytes
  read and decrypted now. \<open>None\<close> when \<^verbatim>\<open>Read\<close> fails.
\<close>

definition read_header :: "'c env \<Rightarrow> 'c WorldSocket \<Rightarrow> (ClientPktHeader \<times> 'c WorldSocket) option" where
  "read_header env s =
     (if m_useExistingHeader s then
        let s = s\<lparr>m_useExistingHeader := False\<rparr>;
            h = m_existingHeader s
        in Some (h, ReadSkip 6 s)
      else
        case Read 6 s of
          None \<Rightarrow> None
        | Some (raw, s) \<Rightarrow>
            (case DecryptRecv env (m_crypt s) raw of
               (bytes, crypt') \<Rightarrow> Some (ClientPktHeader_of_bytes bytes, s\<lparr>m_crypt := crypt'\<rparr>)))"

text \<open>
  Lines 218 to 284: the switch on the opcode inside the try block, and the catch. The
  case labels of a switch are distinct, so testing them in order is the switch. The
  handlers throw only before they change anything, so the catch runs on the socket as
  it was when the handler was entered.
\<close>

definition route :: "'c env \<Rightarrow> int \<Rightarrow> WorldPacket \<Rightarrow> 'c WorldSocket \<Rightarrow> bool \<times> 'c WorldSocket" where
  "route env now pct s =
     (let opcode = m_opcode pct;
          handled =
            (if opcode = 0x4C524F57 then HandleWowConnection env pct s
             else if opcode = CMSG_AUTH_SESSION env then
               (if m_session s \<noteq> None then
                  Inr (False, s\<lparr>sLog := sLog s @ [outError
                    ''WorldSocket::ProcessIncomingData: Player send CMSG_AUTH_SESSION again'']\<rparr>)
                else HandleAuthSession env pct s)
             else if opcode = CMSG_PING env then HandlePing env now pct s
             else if opcode = CMSG_KEEP_ALIVE env then Inr (True, s)
             else
               (case m_session s of
                  None \<Rightarrow>
                    Inr (False, s\<lparr>sLog := sLog s @ [outError
                      ''WorldSocket::ProcessIncomingData: Client not authed opcode = %u'']\<rparr>)
                | Some session \<Rightarrow>
                    Inr (True, s\<lparr>m_session :=
                      Some (session\<lparr>s_recvQueue := s_recvQueue session @ [pct]\<rparr>)\<rparr>)))
      in case handled of
           Inr r \<Rightarrow> r
         | Inl ByteBufferException \<Rightarrow>
             let s = s\<lparr>sLog := sLog s @ [outError
                   ''WorldSocket::ProcessIncomingData ByteBufferException occured while parsing an instant handled packet (opcode: %u) from client %s, accountid=%i.'']\<rparr>
             in if CONFIG_BOOL_KICK_PLAYER_ON_BAD_PACKET env then (False, s) else (True, s))"

definition ProcessIncomingData :: "'c env \<Rightarrow> int \<Rightarrow> 'c WorldSocket \<Rightarrow> bool \<times> 'c WorldSocket" where
  "ProcessIncomingData env now s =
     (case read_header env s of
        None \<Rightarrow> (False, s\<lparr>errno := EBADMSG\<rparr>)
      | Some (h, s) \<Rightarrow>
        if hdr_size h < 4 \<or> hdr_size h > 0x2800 \<and> hdr_cmd h \<noteq> 0x4C524F57 then
          (False, s\<lparr>sLog := sLog s @ [outError
             ''WorldSocket::ProcessIncomingData: client sent malformed packet size = %u , cmd = %u''],
            errno := EINVAL\<rparr>)
        else
          let validBytesRemaining = hdr_size h - 4 in
          if unat validBytesRemaining > ReadLengthRemaining s then
            let s = s\<lparr>m_useExistingHeader := True\<rparr>;
                s = s\<lparr>m_existingHeader := h\<rparr>;
                s = ReadSkip (- 6) s
            in (False, s\<lparr>errno := EBADMSG\<rparr>)
          else
            let opcode = hdr_cmd h in
            if isClosed s then (False, s)
            else
              let pct = WorldPacket_new opcode in
              if validBytesRemaining \<noteq> 0 then
                let pct = put (Append (take (unat validBytesRemaining) (InPeak s))) pct;
                    s = ReadSkip (int (unat validBytesRemaining)) s
                in route env now pct s
              else route env now pct s)"

subsection \<open>Names for what the handlers leave behind\<close>

text \<open>
  Shorthand used in the statements below. \<open>auth_response\<close> is the packet that a
  rejection path of \<open>HandleAuthSession\<close> builds in \<open>packet\<close>: initialised for
  \<open>SMSG_AUTH_RESPONSE\<close>, two zero bits, the code. \<open>respond\<close> is what every rejection
  path does to the socket: \<open>SendPacket\<close>, then one line of log.
\<close>

definition auth_response :: "'c env \<Rightarrow> ResponseCodes \<Rightarrow> WorldPacket" where
  "auth_response env code =
     \<lparr>m_opcode = SMSG_AUTH_RESPONSE env, storage = [WriteBit False, WriteBit False, PutCode code]\<rparr>"

definition respond :: "'c env \<Rightarrow> WorldPacket \<Rightarrow> log_entry \<Rightarrow> 'c WorldSocket \<Rightarrow> 'c WorldSocket" where
  "respond env p e s = (let s = SendPacket env p False s in s\<lparr>sLog := sLog s @ [e]\<rparr>)"

text \<open>The log lines of the six rejection paths, and the one of the framing check.\<close>

definition log_version_mismatch :: log_entry where
  "log_version_mismatch =
     outError ''WorldSocket::HandleAuthSession: Sent Auth Response (version mismatch).''"

definition log_unknown_account :: log_entry where
  "log_unknown_account =
     outError ''WorldSocket::HandleAuthSession: Sent Auth Response (unknown account).''"

definition log_ip_differs :: log_entry where
  "log_ip_differs =
     BASIC_LOG ''WorldSocket::HandleAuthSession: Sent Auth Response (Account IP differs).''"

definition log_banned :: log_entry where
  "log_banned =
     outError ''WorldSocket::HandleAuthSession: Sent Auth Response (Account banned).''"

definition log_security_level :: log_entry where
  "log_security_level =
     BASIC_LOG ''WorldSocket::HandleAuthSession: User tries to login but his security level is not enough''"

definition log_auth_failed :: log_entry where
  "log_auth_failed =
     outError ''WorldSocket::HandleAuthSession: Sent Auth Response (authentification failed).''"

definition log_malformed :: log_entry where
  "log_malformed =
     outError ''WorldSocket::ProcessIncomingData: client sent malformed packet size = %u , cmd = %u''"

text \<open>Overwriting the kept header and \<open>errno\<close>, the two fields that a failed attempt to
  read a whole message leaves changed.\<close>

definition stamp :: "ClientPktHeader \<Rightarrow> errno_t \<Rightarrow> 'c WorldSocket \<Rightarrow> 'c WorldSocket" where
  "stamp h e s = s\<lparr>m_existingHeader := h, errno := e\<rparr>"

subsection \<open>Rejection reasons and what triggers them\<close>

text \<open>
  The six reasons for which \<open>HandleAuthSession\<close> turns a client away. \<open>triggers\<close> is the
  test the source makes for each reason, read on its own: the build is not acceptable;
  the account query finds no row; the row is locked to another address; the digest sent
  differs from the digest computed; the ban query finds a row; the server's security
  limit is above \<open>SEC_PLAYER\<close> and above the (clamped) level of the account. The four
  tests that read the account row do not trigger when there is no row.
\<close>

datatype rejection =
  VersionMismatch | UnknownAccount | AddressLocked | DigestMismatch | AccountBanned
  | ServerUnavailable

fun triggers :: "'c env \<Rightarrow> 'c WorldSocket \<Rightarrow> auth_fields \<Rightarrow> rejection \<Rightarrow> bool" where
  "triggers env s f VersionMismatch = (\<not> IsAcceptableClientBuild env (clientBuild f))"
| "triggers env s f UnknownAccount =
     (account_query env (escape_string env (accountName f)) = None)"
| "triggers env s f AddressLocked =
     (case account_query env (escape_string env (accountName f)) of
        None \<Rightarrow> False
      | Some row \<Rightarrow> f_locked row = 1 \<and> f_lockedIp row \<noteq> remoteAddress s)"
| "triggers env s f DigestMismatch =
     (case account_query env (escape_string env (accountName f)) of
        None \<Rightarrow> False
      | Some row \<Rightarrow>
          take 20 (sha_digest env (accountName f) 0 (clientSeed f) (m_seed s) (f_sessionkey row))
            \<noteq> digest f)"
| "triggers env s f AccountBanned =
     (case account_query env (escape_string env (accountName f)) of
        None \<Rightarrow> False
      | Some row \<Rightarrow> ban_query env (f_id row) (remoteAddress s))"
| "triggers env s f ServerUnavailable =
     (case account_query env (escape_string env (accountName f)) of
        None \<Rightarrow> False
      | Some row \<Rightarrow>
          GetPlayerSecurityLimit env > SEC_PLAYER env \<and>
          (if f_gmlevel row > SEC_ADMINISTRATOR env then SEC_ADMINISTRATOR env
           else f_gmlevel row) < GetPlayerSecurityLimit env)"

text \<open>
  The reason a call reports is read off the one line it adds to the log: two of the
  reasons share the response code \<open>AUTH_FAILED\<close>, so the response alone does not tell
  them apart.
\<close>

definition reported :: "log_entry \<Rightarrow> rejection option" where
  "reported e =
     (if e = log_version_mismatch then Some VersionMismatch
      else if e = log_unknown_account then Some UnknownAccount
      else if e = log_ip_differs then Some AddressLocked
      else if e = log_auth_failed then Some DigestMismatch
      else if e = log_banned then Some AccountBanned
      else if e = log_security_level then Some ServerUnavailable
      else None)"

definition reported_reason :: "'c WorldSocket \<Rightarrow> 'c WorldSocket \<Rightarrow> rejection option" where
  "reported_reason s s' =
     (case drop (length (sLog s)) (sLog s') of [e] \<Rightarrow> reported e | _ \<Rightarrow> None)"

text \<open>The order of the checks in the source, and the order the specification gives.\<close>

definition checked_order :: "rejection list" where
  "checked_order =
     [VersionMismatch, UnknownAccount, AddressLocked, AccountBanned, ServerUnavailable,
      DigestMismatch]"

definition specified_order :: "rejection list" where
  "specified_order =
     [VersionMismatch, UnknownAccount, AddressLocked, DigestMismatch, AccountBanned,
      ServerUnavailable]"

section \<open>A concrete server and client\<close>

text \<open>
  A server whose cipher state counts the bytes it has processed, with one account
  \<open>AB\<close>, and a credentials message for that account: 52 bytes of fixed layout in which
  every digest byte, the build and the seed are made of the byte 7, two bytes of add-on
  data, and the name \<open>AB\<close> with its length packed into two bytes.
\<close>

definition ex_row :: account_row where
  "ex_row =
     \<lparr>f_id = 42, f_gmlevel = 0, f_sessionkey = ''0A'', f_lockedIp = ''10.0.0.1'',
      f_locked = 0, f_v = ''01'', f_s = ''02'', f_expansion = 3, f_mutetime = 0,
      f_locale = 200\<rparr>"

definition ex_env :: "nat env" where
  "ex_env =
     \<lparr>CMSG_AUTH_SESSION = 0x0449, CMSG_PING = 0x444D, CMSG_KEEP_ALIVE = 0x0015,
      SMSG_AUTH_RESPONSE = 0x5DB6, SMSG_AUTH_CHALLENGE = 0x4542, SMSG_PONG = 0x4D42,
      MSG_NULL_ACTION = 0, SEC_PLAYER = 0, SEC_ADMINISTRATOR = 3, MAX_LOCALE = 9,
      LOCALE_enUS = 0, CONFIG_UINT32_EXPANSION = 3, CONFIG_UINT32_MAX_OVERSPEED_PINGS = 2,
      CONFIG_BOOL_KICK_PLAYER_ON_BAD_PACKET = True, GetPlayerSecurityLimit = 0,
      IsAcceptableClientBuild = (\<lambda>b. b = 1799),
      escape_string = (\<lambda>n. n),
      account_query = (\<lambda>n. if n = ''AB'' then Some ex_row else None),
      ban_query = (\<lambda>i a. False),
      sha_digest = (\<lambda>n t c d k. [7, 7, 7, 7, 7, 7, 7, 7, 7, 7, 7, 7, 7, 7, 7, 7, 7, 7, 7, 7]),
      crypt_Init = (\<lambda>k. 0),
      recv_byte = (\<lambda>c b. (b - 1, Suc c)),
      send_byte = (\<lambda>c b. (b + 1, Suc c)),
      ByteBuffer_size = length,
      ticks_per_second = 1000\<rparr>"

definition ex_auth_bytes :: "uint8 list" where
  "ex_auth_bytes =
     [7, 7, 7, 7, 7, 7, 7, 7, 7, 7, 7, 7, 7, 7, 7, 7, 7, 7, 7, 7, 7, 7, 7, 7, 7, 7,
      7, 7, 7, 7, 7, 7, 7, 7, 7, 7, 7, 7, 7, 7, 7, 7, 7, 7, 7, 7, 7, 7, 7, 7, 7, 7,
      2, 0, 0, 0, 9, 9, 0, 16, 0x41, 0x42]"

definition ex_auth_fields :: auth_fields where
  "ex_auth_fields =
     \<lparr>digest = [7, 7, 7, 7, 7, 7, 7, 7, 7, 7, 7, 7, 7, 7, 7, 7, 7, 7, 7, 7],
      clientBuild = 1799, clientSeed = 117901063, addonsData = [9, 9],
      accountName = ''AB''\<rparr>"

definition ex_auth_packet :: WorldPacket where
  "ex_auth_packet = \<lparr>m_opcode = 0x0449, storage = [Append ex_auth_bytes]\<rparr>"

definition ex_socket :: "nat WorldSocket" where
  "ex_socket = WorldSocket_init ''10.0.0.1'' 5"

text \<open>The same server with the account banned and a digest that does not match; and
  with a security limit above the account's level and a digest that does not match.\<close>

definition ex_env_banned :: "nat env" where
  "ex_env_banned =
     ex_env\<lparr>ban_query := (\<lambda>i a. True),
            sha_digest := (\<lambda>n t c d k. [8, 8, 8, 8, 8, 8, 8, 8, 8, 8, 8, 8, 8, 8, 8, 8, 8, 8, 8, 8])\<rparr>"

definition ex_env_gated :: "nat env" where
  "ex_env_gated =
     ex_env\<lparr>GetPlayerSecurityLimit := 2,
            sha_digest := (\<lambda>n t c d k. [8, 8, 8, 8, 8, 8, 8, 8, 8, 8, 8, 8, 8, 8, 8, 8, 8, 8, 8, 8])\<rparr>"

text \<open>The first server again, with nothing changed but a security limit of 2: the client
  presents the right digest and is turned away only for its security level.\<close>

definition ex_env_limit :: "nat env" where
  "ex_env_limit = ex_env\<lparr>GetPlayerSecurityLimit := 2\<rparr>"

text \<open>
  The socket of the client once it is authenticated as a player, with a cipher that has
  processed no byte yet, two fast pings counted and the last ping at tick 5000; a ping
  message; and a message of opcode 0x1234 with the body 1, 2, 3, whose six header bytes
  are given as they travel (each byte one more than the plain byte, which is how the
  example cipher encrypts).
\<close>

definition ex_session :: WorldSession where
  "ex_session =
     \<lparr>s_accountId = 42, s_security = 0, s_expansion = 3, s_mutetime = 0, s_locale = 0,
      s_latency = 0, s_clientTimeDelay = 0, s_recvQueue = [], s_addons = [9, 9]\<rparr>"

definition ex_socket_authed :: "nat WorldSocket" where
  "ex_socket_authed =
     ex_socket\<lparr>m_session := Some ex_session, m_crypt := Some 0, m_lastPingTime := 5000,
               m_overSpeedPings := 2\<rparr>"

definition ex_ping_packet :: WorldPacket where
  "ex_ping_packet = \<lparr>m_opcode = 0x444D, storage = [Append [1, 0, 0, 0, 50, 0, 0, 0]]\<rparr>"

definition ex_wire_header :: "uint8 list" where
  "ex_wire_header = [1, 8, 0x35, 0x13, 1, 1]"

definition ex_header :: ClientPktHeader where
  "ex_header = \<lparr>hdr_size = 7, hdr_cmd = 0x1234\<rparr>"

definition ex_body :: "uint8 list" where
  "ex_body = [1, 2, 3]"

text \<open>
  The unauthenticated socket after six header bytes have arrived in clear: a size given by
  its two bytes and the opcode 0x1234, or the opcode 0x4C524F57.
\<close>

definition ex_arrival :: "uint8 \<Rightarrow> uint8 \<Rightarrow> nat WorldSocket" where
  "ex_arrival hi lo = receive [hi, lo, 0x34, 0x12, 0, 0] ex_socket"

definition ex_legacy_arrival :: "uint8 \<Rightarrow> uint8 \<Rightarrow> nat WorldSocket" where
  "ex_legacy_arrival hi lo = receive [hi, lo, 0x57, 0x4F, 0x52, 0x4C] ex_socket"

section \<open>The outbound header\<close>

lemma ff32: "(0xFF::uint32) = mask 8"
  by (simp add: mask_eq_decr_exp)

lemma ff16: "(0xFF::uint16) = mask 8"
  by (simp add: mask_eq_decr_exp)

lemma x7f: "(0x7F::uint8) = mask 7"
  by (simp add: mask_eq_decr_exp)

lemma mask8_32: "(ucast ((0xFF::uint32) AND x) :: uint8) = ucast x"
  unfolding ff32 by (rule bit_word_eqI) (auto simp: bit_simps)

lemma mask8_16: "(ucast ((0xFF::uint16) AND x) :: uint8) = ucast x"
  unfolding ff16 by (rule bit_word_eqI) (auto simp: bit_simps)

lemma bit128: "bit (128::int) k \<longleftrightarrow> k = 7"
proof -
  have "(128::int) = 2 ^ 7" by simp
  then show ?thesis by (simp only: bit_exp_iff) auto
qed

lemma first_long:
  "(ucast ((0x80::uint32) OR (0xFF AND drop_bit 16 x)) :: uint8) = 0x80 OR ucast (drop_bit 16 x)"
  unfolding ff32 by (rule bit_word_eqI) (auto simp: bit_simps bit128)

lemma small_bits:
  fixes sz :: uint32
  assumes "sz \<le> 0x7FFF" and "bit sz n"
  shows "n < 15"
proof -
  from assms(1) have "unat sz < 2 ^ 15" by (simp add: word_le_nat_alt)
  then have "take_bit 15 (unat sz) = unat sz" by (rule take_bit_nat_eq_self)
  moreover from assms(2) have "bit (unat sz) n" by (simp add: bit_unsigned_iff)
  ultimately have "bit (take_bit 15 (unat sz)) n" by simp
  then show ?thesis by (simp add: bit_take_bit_iff)
qed

lemma short_size_roundtrip:
  fixes sz :: uint32
  assumes "sz \<le> 0x7FFF"
  shows "push_bit 8 (ucast (ucast (drop_bit 8 sz) :: uint8)) OR ucast (ucast sz :: uint8) = sz"
proof (rule bit_word_eqI)
  fix n assume "n < LENGTH(32)"
  show "bit (push_bit 8 (ucast (ucast (drop_bit 8 sz) :: uint8)) OR ucast (ucast sz :: uint8) :: uint32) n = bit sz n"
    using small_bits[OF assms, of n] by (auto simp: bit_simps)
qed

lemma short_top_bit_clear:
  "sz \<le> 0x7FFF \<Longrightarrow> \<not> bit (ucast (drop_bit 8 (sz::uint32)) :: uint8) 7"
  using small_bits[of sz 15] by (auto simp: bit_simps)

lemma long_top_bit_set: "bit ((0x80::uint8) OR x) 7"
  by (simp add: bit_simps)

lemma long_size_roundtrip:
  "push_bit 16 (ucast ((0x80 OR ucast (drop_bit 16 sz) :: uint8) AND 0x7F))
     OR push_bit 8 (ucast (ucast (drop_bit 8 sz) :: uint8)) OR ucast (ucast sz :: uint8)
   = take_bit 23 (sz :: uint32)"
  unfolding x7f by (rule bit_word_eqI) (auto simp: bit_simps bit128)

lemma header_bytes:
  "header (ServerPktHeader_init sz cmd) =
     (if sz \<le> 0x7FFF then [ucast (drop_bit 8 sz), ucast sz]
      else [0x80 OR ucast (drop_bit 16 sz), ucast (drop_bit 8 sz), ucast sz])
     @ [ucast cmd, ucast (drop_bit 8 cmd)]"
  by (simp add: ServerPktHeader_init_def isLargePacket_def Let_def mask8_32 mask8_16
      first_long not_le)

lemma header_length:
  "getHeaderLength (ServerPktHeader_init sz cmd) = length (header (ServerPktHeader_init sz cmd))"
  by (simp add: header_bytes) (simp add: getHeaderLength_def isLargePacket_def ServerPktHeader_init_def Let_def not_le)

text \<open>
  Claim C5. For every size and opcode the header is the two byte big-endian size when
  the size is at most 0x7FFF and otherwise three bytes, the first being 0x80 OR-ed with
  bits 16 and up of the size, followed by the opcode, low byte first. The number of
  header bytes is what \<open>getHeaderLength\<close> reports. The top bit of the first byte tells the
  two forms apart, the short form reads back as the size and the long form as its low 23
  bits, and the opcode reads back from its two bytes. Size 0x7FFF is encoded short and
  0x8000 long. \<open>SendPacket\<close> on an open socket writes exactly these bytes, passed
  through the cipher, for the size of the packet's contents plus two.
\<close>

theorem C5_outbound_header_size_classes:
  "(let h = ServerPktHeader_init sz cmd in
      header h =
        (if sz \<le> 0x7FFF then [ucast (drop_bit 8 sz), ucast sz]
         else [0x80 OR ucast (drop_bit 16 sz), ucast (drop_bit 8 sz), ucast sz])
        @ [ucast cmd, ucast (drop_bit 8 cmd)]
      \<and> getHeaderLength h = length (header h)
      \<and> (if sz \<le> 0x7FFF
          then \<not> bit (header h ! 0) 7
             \<and> push_bit 8 (ucast (header h ! 0)) OR ucast (header h ! 1) = sz
             \<and> push_bit 8 (ucast (header h ! 3)) OR ucast (header h ! 2) = cmd
          else bit (header h ! 0) 7
             \<and> push_bit 16 (ucast (header h ! 0 AND 0x7F)) OR push_bit 8 (ucast (header h ! 1))
                  OR ucast (header h ! 2) = take_bit 23 sz
             \<and> push_bit 8 (ucast (header h ! 4)) OR ucast (header h ! 3) = cmd))
   \<and> header (ServerPktHeader_init 0x7FFF cmd) = [0x7F, 0xFF, ucast cmd, ucast (drop_bit 8 cmd)]
   \<and> header (ServerPktHeader_init 0x8000 cmd) = [0x80, 0x80, 0, ucast cmd, ucast (drop_bit 8 cmd)]
   \<and> frame_header (last (outBuffer (SendPacket env pct immediate (s\<lparr>isClosed := False\<rparr>)))) =
       fst (EncryptSend env (m_crypt s)
         (header (ServerPktHeader_init (of_nat (ByteBuffer_size env (storage pct)) + 2)
            (ucast (m_opcode pct)))))"
proof -
  have le: "push_bit 8 (ucast (ucast (drop_bit 8 cmd) :: uint8)) OR ucast (ucast cmd :: uint8) = cmd"
    by (rule bit_word_eqI) (auto simp: bit_simps)
  have a: "header (ServerPktHeader_init 0x7FFF cmd) = [0x7F, 0xFF, ucast cmd, ucast (drop_bit 8 cmd)]"
    by (simp add: header_bytes)
  have b: "header (ServerPktHeader_init 0x8000 cmd) = [0x80, 0x80, 0, ucast cmd, ucast (drop_bit 8 cmd)]"
    by (simp add: header_bytes)
  have c: "frame_header (last (outBuffer (SendPacket env pct immediate (s\<lparr>isClosed := False\<rparr>)))) =
       fst (EncryptSend env (m_crypt s)
         (header (ServerPktHeader_init (of_nat (ByteBuffer_size env (storage pct)) + 2)
            (ucast (m_opcode pct)))))"
    by (simp add: SendPacket_def Let_def header_length split: prod.splits)
  show ?thesis
    unfolding Let_def
    apply (intro conjI)
        apply (rule header_bytes)
       apply (rule header_length)
      apply (simp add: header_bytes short_size_roundtrip short_top_bit_clear long_top_bit_set
        long_size_roundtrip le)
     apply (rule a)
     apply (rule b)
    apply (rule c)
    done
qed

section \<open>The credentials step\<close>

text \<open>
  \<open>HandleAuthSession\<close> after the extractions, path by path: the verdict and the socket
  each path returns, written with \<open>respond\<close> and \<open>auth_response\<close>. The security-limit
  path sends the default-constructed \<open>packet\<close> with its two bits; the code written to
  \<open>Packet\<close> is not sent.
\<close>

lemmas log_defs =
  log_version_mismatch_def log_unknown_account_def log_ip_differs_def
  log_banned_def log_security_level_def log_auth_failed_def log_malformed_def

lemma HandleAuthSession_result:
  assumes "read_auth_session (received_bytes pct) = Some f"
  shows "HandleAuthSession env pct s = Inr (
     if \<not> IsAcceptableClientBuild env (clientBuild f) then
       (False, respond env (auth_response env AUTH_VERSION_MISMATCH) log_version_mismatch s)
     else case account_query env (escape_string env (accountName f)) of
       None \<Rightarrow> (False, respond env (auth_response env AUTH_UNKNOWN_ACCOUNT) log_unknown_account s)
     | Some row \<Rightarrow>
       if f_locked row = 1 \<and> f_lockedIp row \<noteq> remoteAddress s then
         (False, respond env (auth_response env AUTH_FAILED) log_ip_differs (s\<lparr>m_s := f_s row\<rparr>))
       else if ban_query env (f_id row) (remoteAddress s) then
         (False, respond env (auth_response env AUTH_BANNED) log_banned (s\<lparr>m_s := f_s row\<rparr>))
       else if GetPlayerSecurityLimit env > SEC_PLAYER env \<and>
               (if f_gmlevel row > SEC_ADMINISTRATOR env then SEC_ADMINISTRATOR env else f_gmlevel row)
                 < GetPlayerSecurityLimit env then
         (False, respond env \<lparr>m_opcode = MSG_NULL_ACTION env, storage = [WriteBit False, WriteBit False]\<rparr>
                   log_security_level (s\<lparr>m_s := f_s row\<rparr>))
       else if take 20 (sha_digest env (accountName f) 0 (clientSeed f) (m_seed s) (f_sessionkey row))
                 \<noteq> digest f then
         (False, respond env (auth_response env AUTH_FAILED) log_auth_failed (s\<lparr>m_s := f_s row\<rparr>))
       else
         (True, s\<lparr>m_s := f_s row,
                 account_logons := account_logons s @ [(f_id row, remoteAddress s)],
                 m_session := Some
                   \<lparr>s_accountId = f_id row,
                    s_security = (if f_gmlevel row > SEC_ADMINISTRATOR env
                                  then SEC_ADMINISTRATOR env else f_gmlevel row),
                    s_expansion = (if CONFIG_UINT32_EXPANSION env > ucast (f_expansion row)
                                   then ucast (f_expansion row) else CONFIG_UINT32_EXPANSION env),
                    s_mutetime = f_mutetime row,
                    s_locale = (if f_locale row \<ge> MAX_LOCALE env then LOCALE_enUS env
                                else f_locale row),
                    s_latency = 0, s_clientTimeDelay = 0, s_recvQueue = [],
                    s_addons = addonsData f\<rparr>,
                 m_crypt := Some (crypt_Init env (f_sessionkey row)),
                 world_sessions := world_sessions s @ [f_id row]\<rparr>))"
  using assms
  by (simp add: HandleAuthSession_def Let_def respond_def auth_response_def Initialize_def
      put_def WorldPacket_new_def log_defs split: option.splits)

lemma SendPacket_sel:
  "errno (SendPacket env p i s) = errno s"
  "m_existingHeader (SendPacket env p i s) = m_existingHeader s"
  "sLog (SendPacket env p i s) = sLog s"
  "m_session (SendPacket env p i s) = m_session s"
  "account_logons (SendPacket env p i s) = account_logons s"
  "world_sessions (SendPacket env p i s) = world_sessions s"
  "inBuffer (SendPacket env p i s) = inBuffer s"
  "readPosition (SendPacket env p i s) = readPosition s"
  "m_useExistingHeader (SendPacket env p i s) = m_useExistingHeader s"
  "isClosed (SendPacket env p i s) = isClosed s"
  "remoteAddress (SendPacket env p i s) = remoteAddress s"
  "m_seed (SendPacket env p i s) = m_seed s"
  "m_s (SendPacket env p i s) = m_s s"
  "m_lastPingTime (SendPacket env p i s) = m_lastPingTime s"
  "m_overSpeedPings (SendPacket env p i s) = m_overSpeedPings s"
  by (simp_all add: SendPacket_def Let_def split: prod.splits)

lemma SendPacket_keyed: "(m_crypt (SendPacket env p i s) = None) = (m_crypt s = None)"
  by (auto simp: SendPacket_def Let_def EncryptSend_def split: prod.splits option.splits)

lemma SendPacket_outBuffer:
  "map frame_packet (outBuffer (SendPacket env p i s)) =
     map frame_packet (outBuffer s) @ (if isClosed s then [] else [p])"
  by (simp add: SendPacket_def Let_def split: prod.splits)

lemma respond_sel:
  "sLog (respond env p e s) = sLog s @ [e]"
  "errno (respond env p e s) = errno s"
  "m_existingHeader (respond env p e s) = m_existingHeader s"
  "m_session (respond env p e s) = m_session s"
  "account_logons (respond env p e s) = account_logons s"
  "world_sessions (respond env p e s) = world_sessions s"
  "(m_crypt (respond env p e s) = None) = (m_crypt s = None)"
  "map frame_packet (outBuffer (respond env p e s)) =
     map frame_packet (outBuffer s) @ (if isClosed s then [] else [p])"
  by (simp_all add: respond_def Let_def SendPacket_sel SendPacket_keyed SendPacket_outBuffer)

lemma reported_simps:
  "reported log_version_mismatch = Some VersionMismatch"
  "reported log_unknown_account = Some UnknownAccount"
  "reported log_ip_differs = Some AddressLocked"
  "reported log_auth_failed = Some DigestMismatch"
  "reported log_banned = Some AccountBanned"
  "reported log_security_level = Some ServerUnavailable"
  by (simp_all add: reported_def log_defs)

lemmas ex_defs = ex_env_def ex_row_def ex_socket_def ex_auth_fields_def ex_auth_packet_def
  ex_auth_bytes_def ex_env_banned_def ex_env_gated_def ex_env_limit_def WorldSocket_init_def

lemma ex_read: "read_auth_session (received_bytes ex_auth_packet) = Some ex_auth_fields"
  by (simp add: ex_auth_packet_def ex_auth_bytes_def ex_auth_fields_def received_bytes_def
      read_auth_session_def read_skip_def read_bytes_def ReadString_def char_of_def
      bit_Suc_0_iff)

text \<open>
  Claim C1, as the code has it. When the extractions succeed, the reason that
  \<open>HandleAuthSession\<close> reports is the first reason, in the order version mismatch,
  unknown account, address lock, ban, security limit, digest mismatch, whose test
  triggers on the message; the verdict is success exactly when none triggers. The digest
  is compared last, after the ban query and the security limit.
\<close>

theorem C1_rejection_precedence_as_checked:
  assumes "read_auth_session (received_bytes pct) = Some f"
    and "HandleAuthSession env pct s = Inr (ok, s')"
  shows "reported_reason s s' = List.find (triggers env s f) checked_order
       \<and> (ok \<longleftrightarrow> List.find (triggers env s f) checked_order = None)"
  using assms(2) unfolding HandleAuthSession_result[OF assms(1)]
  by (auto simp: checked_order_def reported_reason_def respond_sel reported_simps
      split: if_splits option.splits)

text \<open>
  The theorem at the banned account: ban and digest mismatch both trigger, and the ban is
  what is reported.
\<close>

theorem C1_witness:
  "reported_reason ex_socket
     (respond ex_env_banned (auth_response ex_env_banned AUTH_BANNED) log_banned
        (ex_socket\<lparr>m_s := ''02''\<rparr>))
     = List.find (triggers ex_env_banned ex_socket ex_auth_fields) checked_order
   \<and> List.find (triggers ex_env_banned ex_socket ex_auth_fields) checked_order
     = Some AccountBanned"
proof -
  have run: "HandleAuthSession ex_env_banned ex_auth_packet ex_socket =
      Inr (False, respond ex_env_banned (auth_response ex_env_banned AUTH_BANNED) log_banned
        (ex_socket\<lparr>m_s := ''02''\<rparr>))"
    by (simp add: HandleAuthSession_result[OF ex_read]) (simp add: ex_defs)
  have "List.find (triggers ex_env_banned ex_socket ex_auth_fields) checked_order
     = Some AccountBanned"
    by (simp add: checked_order_def ex_defs)
  with C1_rejection_precedence_as_checked[OF ex_read run] show ?thesis by simp
qed

text \<open>
  Claim C1 as stated fails. For the banned account with a wrong digest the order of the
  specification picks the digest mismatch, and the code reports the ban; with a security
  limit of 2 and a wrong digest the order of the specification picks the digest mismatch
  again, and the code reports the security level.
\<close>

theorem C1_digest_not_before_ban_counterexample:
  "triggers ex_env_banned ex_socket ex_auth_fields DigestMismatch
   \<and> triggers ex_env_banned ex_socket ex_auth_fields AccountBanned
   \<and> List.find (triggers ex_env_banned ex_socket ex_auth_fields) specified_order
       = Some DigestMismatch
   \<and> HandleAuthSession ex_env_banned ex_auth_packet ex_socket =
       Inr (False, respond ex_env_banned (auth_response ex_env_banned AUTH_BANNED) log_banned
         (ex_socket\<lparr>m_s := ''02''\<rparr>))
   \<and> reported_reason ex_socket
       (respond ex_env_banned (auth_response ex_env_banned AUTH_BANNED) log_banned
         (ex_socket\<lparr>m_s := ''02''\<rparr>)) = Some AccountBanned
   \<and> triggers ex_env_gated ex_socket ex_auth_fields DigestMismatch
   \<and> triggers ex_env_gated ex_socket ex_auth_fields ServerUnavailable
   \<and> List.find (triggers ex_env_gated ex_socket ex_auth_fields) specified_order
       = Some DigestMismatch
   \<and> HandleAuthSession ex_env_gated ex_auth_packet ex_socket =
       Inr (False, respond ex_env_gated
         \<lparr>m_opcode = 0, storage = [WriteBit False, WriteBit False]\<rparr> log_security_level
         (ex_socket\<lparr>m_s := ''02''\<rparr>))
   \<and> reported_reason ex_socket
       (respond ex_env_gated \<lparr>m_opcode = 0, storage = [WriteBit False, WriteBit False]\<rparr>
         log_security_level (ex_socket\<lparr>m_s := ''02''\<rparr>)) = Some ServerUnavailable"
proof -
  have a: "HandleAuthSession ex_env_banned ex_auth_packet ex_socket =
       Inr (False, respond ex_env_banned (auth_response ex_env_banned AUTH_BANNED) log_banned
         (ex_socket\<lparr>m_s := ''02''\<rparr>))"
    by (simp add: HandleAuthSession_result[OF ex_read]) (simp add: ex_defs)
  have b: "HandleAuthSession ex_env_gated ex_auth_packet ex_socket =
       Inr (False, respond ex_env_gated
         \<lparr>m_opcode = 0, storage = [WriteBit False, WriteBit False]\<rparr> log_security_level
         (ex_socket\<lparr>m_s := ''02''\<rparr>))"
    by (simp add: HandleAuthSession_result[OF ex_read]) (simp add: ex_defs)
  have c: "triggers ex_env_banned ex_socket ex_auth_fields DigestMismatch"
    "triggers ex_env_banned ex_socket ex_auth_fields AccountBanned"
    "List.find (triggers ex_env_banned ex_socket ex_auth_fields) specified_order
       = Some DigestMismatch"
    "triggers ex_env_gated ex_socket ex_auth_fields DigestMismatch"
    "triggers ex_env_gated ex_socket ex_auth_fields ServerUnavailable"
    "List.find (triggers ex_env_gated ex_socket ex_auth_fields) specified_order
       = Some DigestMismatch"
    by (simp_all add: specified_order_def ex_defs)
  have d: "reported_reason ex_socket
       (respond ex_env_banned (auth_response ex_env_banned AUTH_BANNED) log_banned
         (ex_socket\<lparr>m_s := ''02''\<rparr>)) = Some AccountBanned"
    "reported_reason ex_socket
       (respond ex_env_gated \<lparr>m_opcode = 0, storage = [WriteBit False, WriteBit False]\<rparr>
         log_security_level (ex_socket\<lparr>m_s := ''02''\<rparr>)) = Some ServerUnavailable"
    by (simp_all add: reported_reason_def respond_sel reported_simps)
  from a b c d show ?thesis by blast
qed

text \<open>
  What each rejection path sends on an open socket: the response with the code of its
  reason on five paths, and on the path of the security limit a packet with the opcode of
  a default-constructed packet and no code.
\<close>

lemma rejection_responses:
  assumes "read_auth_session (received_bytes pct) = Some f"
    and "HandleAuthSession env pct s = Inr (False, s')"
    and "\<not> isClosed s"
  shows "map frame_packet (outBuffer s') = map frame_packet (outBuffer s) @
     [case List.find (triggers env s f) checked_order of
        Some VersionMismatch \<Rightarrow> auth_response env AUTH_VERSION_MISMATCH
      | Some UnknownAccount \<Rightarrow> auth_response env AUTH_UNKNOWN_ACCOUNT
      | Some AddressLocked \<Rightarrow> auth_response env AUTH_FAILED
      | Some AccountBanned \<Rightarrow> auth_response env AUTH_BANNED
      | Some DigestMismatch \<Rightarrow> auth_response env AUTH_FAILED
      | _ \<Rightarrow> \<lparr>m_opcode = MSG_NULL_ACTION env, storage = [WriteBit False, WriteBit False]\<rparr>]"
  using assms(2,3) unfolding HandleAuthSession_result[OF assms(1)]
  by (auto simp: checked_order_def respond_sel split: if_splits option.splits)

text \<open>
  Claim C8 at the input where the code departs from it. The client \<open>AB\<close> presents the
  right digest to a server whose security limit is 2. The call fails, logs the security
  level, and the one packet it sends carries no \<open>AUTH_UNAVAILABLE\<close>: it is the
  default-constructed packet, with the opcode of such a packet, holding two zero bits.
\<close>

theorem C8_security_gate_response_has_no_reason:
  "(case HandleAuthSession ex_env_limit ex_auth_packet ex_socket of
      Inl e \<Rightarrow> False
    | Inr (ok, s') \<Rightarrow>
        ok = False
        \<and> sLog s' = [log_security_level]
        \<and> map frame_packet (outBuffer s') =
            [\<lparr>m_opcode = MSG_NULL_ACTION ex_env_limit, storage = [WriteBit False, WriteBit False]\<rparr>])"
  by (simp add: HandleAuthSession_result[OF ex_read]) (simp add: ex_defs respond_sel)

text \<open>
  Claim C9. When \<open>HandleAuthSession\<close> returns failure, the session pointer is what it
  was, the cipher is keyed exactly if it was keyed before, no row was added to
  \<open>account_logons\<close> and no session was handed to the world. The socket differs from the
  socket before the call by one \<open>SendPacket\<close> and one log line, and by the salt copied
  into the private member \<open>m_s\<close> (line 407) on the paths that come after the account
  row was fetched.
\<close>

theorem C9_rejection_leaves_no_session_state:
  assumes "HandleAuthSession env pct s = Inr (False, s')"
  shows "m_session s' = m_session s
       \<and> (m_crypt s' = None \<longleftrightarrow> m_crypt s = None)
       \<and> account_logons s' = account_logons s
       \<and> world_sessions s' = world_sessions s
       \<and> (\<exists>p e salt. s' = respond env p e (s\<lparr>m_s := salt\<rparr>))"
proof (cases "read_auth_session (received_bytes pct)")
  case None
  with assms show ?thesis by (simp add: HandleAuthSession_def)
next
  case (Some f)
  define R where "R = (\<lambda>t. \<exists>p e salt. t = respond env p e (s\<lparr>m_s := salt\<rparr>))"
  have R2: "R (respond env p e (s\<lparr>m_s := salt\<rparr>))" for p e salt
    unfolding R_def by blast
  have "respond env p e s = respond env p e (s\<lparr>m_s := m_s s\<rparr>)" for p e
    by simp
  then have R1: "R (respond env p e s)" for p e
    unfolding R_def by blast
  from assms have "R s'"
    unfolding HandleAuthSession_result[OF Some]
    by (auto simp: R1 R2 split: if_splits option.splits)
  then have ex: "\<exists>p e salt. s' = respond env p e (s\<lparr>m_s := salt\<rparr>)"
    unfolding R_def .
  then show ?thesis by (auto simp: respond_sel)
qed

text \<open>The theorem at the banned account of the example: the socket has no session, an
  unkeyed cipher, no audit row and no registered session before the call, and after it.\<close>

theorem C9_witness:
  "m_session (respond ex_env_banned (auth_response ex_env_banned AUTH_BANNED) log_banned
        (ex_socket\<lparr>m_s := ''02''\<rparr>)) = m_session ex_socket
   \<and> m_crypt (respond ex_env_banned (auth_response ex_env_banned AUTH_BANNED) log_banned
        (ex_socket\<lparr>m_s := ''02''\<rparr>)) = None
   \<and> account_logons (respond ex_env_banned (auth_response ex_env_banned AUTH_BANNED) log_banned
        (ex_socket\<lparr>m_s := ''02''\<rparr>)) = []
   \<and> world_sessions (respond ex_env_banned (auth_response ex_env_banned AUTH_BANNED) log_banned
        (ex_socket\<lparr>m_s := ''02''\<rparr>)) = []"
proof -
  have run: "HandleAuthSession ex_env_banned ex_auth_packet ex_socket =
      Inr (False, respond ex_env_banned (auth_response ex_env_banned AUTH_BANNED) log_banned
        (ex_socket\<lparr>m_s := ''02''\<rparr>))"
    by (simp add: HandleAuthSession_result[OF ex_read]) (simp add: ex_defs)
  have init: "m_crypt ex_socket = None" "account_logons ex_socket = []"
    "world_sessions ex_socket = []"
    by (simp_all add: ex_defs)
  from C9_rejection_leaves_no_session_state[OF run] init show ?thesis by simp
qed

text \<open>
  Claim C10. When every check passes and the locale stored for the account is
  \<open>MAX_LOCALE\<close> or more, \<open>HandleAuthSession\<close> succeeds and the session it constructs has
  the locale \<open>LOCALE_enUS\<close>. Moreover the verdict never depends on the stored locale:
  replacing the locale of every row by any value leaves the verdict as it is.
\<close>

theorem C10_out_of_range_locale_defaults_to_enUS:
  assumes "read_auth_session (received_bytes pct) = Some f"
    and "IsAcceptableClientBuild env (clientBuild f)"
    and "account_query env (escape_string env (accountName f)) = Some row"
    and "\<not> (f_locked row = 1 \<and> f_lockedIp row \<noteq> remoteAddress s)"
    and "\<not> ban_query env (f_id row) (remoteAddress s)"
    and "\<not> (GetPlayerSecurityLimit env > SEC_PLAYER env \<and>
            (if f_gmlevel row > SEC_ADMINISTRATOR env then SEC_ADMINISTRATOR env
             else f_gmlevel row) < GetPlayerSecurityLimit env)"
    and "take 20 (sha_digest env (accountName f) 0 (clientSeed f) (m_seed s) (f_sessionkey row))
           = digest f"
    and "f_locale row \<ge> MAX_LOCALE env"
  shows "(\<exists>s' session. HandleAuthSession env pct s = Inr (True, s')
            \<and> m_session s' = Some session \<and> s_locale session = LOCALE_enUS env)
       \<and> (\<forall>l. map_sum id fst
             (HandleAuthSession
               (env\<lparr>account_query := \<lambda>n. map_option (\<lambda>r. r\<lparr>f_locale := l\<rparr>) (account_query env n)\<rparr>)
               pct s)
           = map_sum id fst (HandleAuthSession env pct s))"
proof
  show "\<exists>s' session. HandleAuthSession env pct s = Inr (True, s')
            \<and> m_session s' = Some session \<and> s_locale session = LOCALE_enUS env"
    using assms(2-8) by (auto simp: HandleAuthSession_result[OF assms(1)])
next
  show "\<forall>l. map_sum id fst
             (HandleAuthSession
               (env\<lparr>account_query := \<lambda>n. map_option (\<lambda>r. r\<lparr>f_locale := l\<rparr>) (account_query env n)\<rparr>)
               pct s)
           = map_sum id fst (HandleAuthSession env pct s)"
    by (cases "account_query env (escape_string env (accountName f))")
       (auto simp: HandleAuthSession_result[OF assms(1)])
qed

text \<open>The theorem at the example: the stored locale is 200, the limit 9, and the session
  gets locale 0.\<close>

theorem C10_witness:
  "f_locale ex_row \<ge> MAX_LOCALE ex_env
   \<and> (\<exists>s' session. HandleAuthSession ex_env ex_auth_packet ex_socket = Inr (True, s')
            \<and> m_session s' = Some session \<and> s_locale session = LOCALE_enUS ex_env)"
proof -
  have h: "IsAcceptableClientBuild ex_env (clientBuild ex_auth_fields)"
    "account_query ex_env (escape_string ex_env (accountName ex_auth_fields)) = Some ex_row"
    "\<not> (f_locked ex_row = 1 \<and> f_lockedIp ex_row \<noteq> remoteAddress ex_socket)"
    "\<not> ban_query ex_env (f_id ex_row) (remoteAddress ex_socket)"
    "\<not> (GetPlayerSecurityLimit ex_env > SEC_PLAYER ex_env \<and>
            (if f_gmlevel ex_row > SEC_ADMINISTRATOR ex_env then SEC_ADMINISTRATOR ex_env
             else f_gmlevel ex_row) < GetPlayerSecurityLimit ex_env)"
    "take 20 (sha_digest ex_env (accountName ex_auth_fields) 0 (clientSeed ex_auth_fields)
        (m_seed ex_socket) (f_sessionkey ex_row)) = digest ex_auth_fields"
    "f_locale ex_row \<ge> MAX_LOCALE ex_env"
    by (simp_all add: ex_defs)
  from C10_out_of_range_locale_defaults_to_enUS[OF ex_read h] h(7) show ?thesis by blast
qed

section \<open>The keepalive monitor\<close>



lemmas ex_defs2 = ex_session_def ex_socket_authed_def ex_ping_packet_def ex_wire_header_def
  ex_header_def ex_body_def


text \<open>
  The keepalive examples of the specification, for a player on the example server (1000
  ticks to the second, a cap of 2): the first ping is accepted and records its time; a
  ping 10 seconds after the last one takes the count from 0 to 1; a ping 30 seconds after
  the last one takes the count back to 0; and an administrator's third fast ping in a
  row, which takes the count to 3, is accepted.
\<close>

lemma ex_ping_read: "read_ping (received_bytes ex_ping_packet) = Some (1, 50)"
  by (simp add: ex_defs2 received_bytes_def read_ping_def)

lemma ping_examples:
  "map_sum id (\<lambda>(ok, s'). (ok, m_lastPingTime s', m_overSpeedPings s'))
     (HandlePing ex_env 5000 ex_ping_packet
        (ex_socket_authed\<lparr>m_lastPingTime := time_point_min, m_overSpeedPings := 0\<rparr>))
     = Inr (True, 5000, 0)"
  "map_sum id (\<lambda>(ok, s'). (ok, m_lastPingTime s', m_overSpeedPings s'))
     (HandlePing ex_env 15000 ex_ping_packet (ex_socket_authed\<lparr>m_overSpeedPings := 0\<rparr>))
     = Inr (True, 15000, 1)"
  "map_sum id (\<lambda>(ok, s'). (ok, m_lastPingTime s', m_overSpeedPings s'))
     (HandlePing ex_env 35000 ex_ping_packet (ex_socket_authed\<lparr>m_overSpeedPings := 1\<rparr>))
     = Inr (True, 35000, 0)"
  "map_sum id (\<lambda>(ok, s'). (ok, m_lastPingTime s', m_overSpeedPings s'))
     (HandlePing ex_env 15000 ex_ping_packet
        (ex_socket_authed\<lparr>m_session := Some (ex_session\<lparr>s_security := 3\<rparr>)\<rparr>))
     = Inr (True, 15000, 3)"
  by (simp_all add: HandlePing_def ex_ping_read Let_def)
     (simp_all add: SendPacket_sel ex_defs ex_defs2 time_point_min_def
        signed_divide_int_def)

section \<open>Inbound framing and routing\<close>

text \<open>
  No path through the handlers adds the line of the framing check to the log, and
  \<open>ProcessIncomingData\<close> after the header is what the source says: the framing error
  when the size check fails, and otherwise one of waiting for more data, giving up on a
  closed socket, or routing the decoded packet.
\<close>

lemma ReadSkip_sel:
  "sLog (ReadSkip n s) = sLog s"
  "errno (ReadSkip n s) = errno s"
  "m_session (ReadSkip n s) = m_session s"
  "isClosed (ReadSkip n s) = isClosed s"
  "m_crypt (ReadSkip n s) = m_crypt s"
  by (simp_all add: ReadSkip_def)

lemma HandleAuthSession_sLog:
  assumes "HandleAuthSession env pct s = Inr (ok, s')"
  shows "sLog s' \<noteq> sLog s @ [log_malformed]"
proof (cases "read_auth_session (received_bytes pct)")
  case None
  with assms show ?thesis by (simp add: HandleAuthSession_def)
next
  case (Some f)
  from assms show ?thesis
    unfolding HandleAuthSession_result[OF Some]
    by (auto simp: respond_sel log_defs split: if_splits option.splits)
qed

lemma HandlePing_sLog:
  assumes "HandlePing env now pct s = Inr (ok, s')"
  shows "sLog s' \<noteq> sLog s @ [log_malformed]"
  using assms
  by (auto simp: HandlePing_def Let_def SendPacket_sel log_defs
      split: if_splits option.splits prod.splits)

lemma route_sLog: "sLog (snd (route env now pct s)) \<noteq> sLog s @ [log_malformed]"
proof -
  define handled where "handled =
     (if m_opcode pct = 0x4C524F57 then HandleWowConnection env pct s
      else if m_opcode pct = CMSG_AUTH_SESSION env then
        (if m_session s \<noteq> None then
           Inr (False, s\<lparr>sLog := sLog s @ [outError
             ''WorldSocket::ProcessIncomingData: Player send CMSG_AUTH_SESSION again'']\<rparr>)
         else HandleAuthSession env pct s)
      else if m_opcode pct = CMSG_PING env then HandlePing env now pct s
      else if m_opcode pct = CMSG_KEEP_ALIVE env then Inr (True, s)
      else
        (case m_session s of
           None \<Rightarrow>
             Inr (False, s\<lparr>sLog := sLog s @ [outError
               ''WorldSocket::ProcessIncomingData: Client not authed opcode = %u'']\<rparr>)
         | Some session \<Rightarrow>
             Inr (True, s\<lparr>m_session :=
               Some (session\<lparr>s_recvQueue := s_recvQueue session @ [pct]\<rparr>)\<rparr>)))"
  have r: "route env now pct s =
     (case handled of
        Inr r \<Rightarrow> r
      | Inl ByteBufferException \<Rightarrow>
          let s = s\<lparr>sLog := sLog s @ [outError
                ''WorldSocket::ProcessIncomingData ByteBufferException occured while parsing an instant handled packet (opcode: %u) from client %s, accountid=%i.'']\<rparr>
          in if CONFIG_BOOL_KICK_PLAYER_ON_BAD_PACKET env then (False, s) else (True, s))"
    by (simp add: route_def handled_def Let_def)
  have h: "sLog s' \<noteq> sLog s @ [log_malformed]" if "handled = Inr (ok, s')" for ok s'
  proof -
    consider (wow) "handled = HandleWowConnection env pct s"
      | (again) "handled = Inr (False, s\<lparr>sLog := sLog s @ [outError
             ''WorldSocket::ProcessIncomingData: Player send CMSG_AUTH_SESSION again'']\<rparr>)"
      | (auth) "handled = HandleAuthSession env pct s"
      | (ping) "handled = HandlePing env now pct s"
      | (alive) "handled = Inr (True, s)"
      | (other) "handled = (case m_session s of
           None \<Rightarrow>
             Inr (False, s\<lparr>sLog := sLog s @ [outError
               ''WorldSocket::ProcessIncomingData: Client not authed opcode = %u'']\<rparr>)
         | Some session \<Rightarrow>
             Inr (True, s\<lparr>m_session :=
               Some (session\<lparr>s_recvQueue := s_recvQueue session @ [pct]\<rparr>)\<rparr>))"
      unfolding handled_def by presburger
    then show ?thesis
    proof cases
      case wow
      with that show ?thesis
        by (auto simp: HandleWowConnection_def Let_def SendPacket_sel)
    next
      case again
      with that show ?thesis by (auto simp: log_defs)
    next
      case auth
      with that show ?thesis by (auto dest: HandleAuthSession_sLog)
    next
      case ping
      with that show ?thesis by (auto dest: HandlePing_sLog)
    next
      case alive
      with that show ?thesis by auto
    next
      case other
      with that show ?thesis by (auto simp: log_defs split: option.splits)
    qed
  qed
  show ?thesis
  proof (cases handled)
    case (Inl e)
    then show ?thesis
      by (simp add: r Let_def log_defs split: ByteBufferException.splits)
  next
    case (Inr p)
    then show ?thesis using h[of "fst p" "snd p"] by (simp add: r)
  qed
qed

lemma nat_int_add_uint: "nat (int a + uint w) = a + unat w"
proof -
  have "nat (int a + uint w) = nat (int a) + nat (uint w)"
    by (rule nat_add_distrib) simp_all
  then show ?thesis by simp
qed

lemma ProcessIncomingData_accepted:
  assumes "read_header env s = Some (h, s1)"
    and "\<not> (hdr_size h < 4 \<or> hdr_size h > 0x2800 \<and> hdr_cmd h \<noteq> 0x4C524F57)"
  shows "ProcessIncomingData env now s =
     (if unat (hdr_size h - 4) > ReadLengthRemaining s1 then
        (False, s1\<lparr>readPosition := readPosition s1 - 6, m_useExistingHeader := True,
                  m_existingHeader := h, errno := EBADMSG\<rparr>)
      else if isClosed s1 then (False, s1)
      else route env now
             \<lparr>m_opcode = hdr_cmd h,
              storage = (if hdr_size h - 4 \<noteq> 0
                         then [Append (take (unat (hdr_size h - 4)) (InPeak s1))] else [])\<rparr>
             (s1\<lparr>readPosition := readPosition s1 + unat (hdr_size h - 4)\<rparr>))"
proof -
  have "ProcessIncomingData env now s =
     (if hdr_size h < 4 \<or> hdr_size h > 0x2800 \<and> hdr_cmd h \<noteq> 0x4C524F57 then
          (False, s1\<lparr>sLog := sLog s1 @ [outError
             ''WorldSocket::ProcessIncomingData: client sent malformed packet size = %u , cmd = %u''],
            errno := EINVAL\<rparr>)
        else
          let validBytesRemaining = hdr_size h - 4 in
          if unat validBytesRemaining > ReadLengthRemaining s1 then
            let s = s1\<lparr>m_useExistingHeader := True\<rparr>;
                s = s\<lparr>m_existingHeader := h\<rparr>;
                s = ReadSkip (- 6) s
            in (False, s\<lparr>errno := EBADMSG\<rparr>)
          else
            let opcode = hdr_cmd h in
            if isClosed s1 then (False, s1)
            else
              let pct = WorldPacket_new opcode in
              if validBytesRemaining \<noteq> 0 then
                let pct = put (Append (take (unat validBytesRemaining) (InPeak s1))) pct;
                    s = ReadSkip (int (unat validBytesRemaining)) s1
                in route env now pct s
              else route env now pct s1)"
    unfolding ProcessIncomingData_def by (simp only: assms(1) option.case prod.case)
  also have "\<dots> = (let validBytesRemaining = hdr_size h - 4 in
          if unat validBytesRemaining > ReadLengthRemaining s1 then
            let s = s1\<lparr>m_useExistingHeader := True\<rparr>;
                s = s\<lparr>m_existingHeader := h\<rparr>;
                s = ReadSkip (- 6) s
            in (False, s\<lparr>errno := EBADMSG\<rparr>)
          else
            let opcode = hdr_cmd h in
            if isClosed s1 then (False, s1)
            else
              let pct = WorldPacket_new opcode in
              if validBytesRemaining \<noteq> 0 then
                let pct = put (Append (take (unat validBytesRemaining) (InPeak s1))) pct;
                    s = ReadSkip (int (unat validBytesRemaining)) s1
                in route env now pct s
              else route env now pct s1)"
    by (simp only: assms(2) if_False)
  also have "\<dots> = (if unat (hdr_size h - 4) > ReadLengthRemaining s1 then
        (False, s1\<lparr>readPosition := readPosition s1 - 6, m_useExistingHeader := True,
                  m_existingHeader := h, errno := EBADMSG\<rparr>)
      else if isClosed s1 then (False, s1)
      else route env now
             \<lparr>m_opcode = hdr_cmd h,
              storage = (if hdr_size h - 4 \<noteq> 0
                         then [Append (take (unat (hdr_size h - 4)) (InPeak s1))] else [])\<rparr>
             (s1\<lparr>readPosition := readPosition s1 + unat (hdr_size h - 4)\<rparr>))"
    by (simp add: Let_def ReadSkip_def WorldPacket_new_def put_def nat_int_add_uint)
  finally show ?thesis .
qed

lemma ProcessIncomingData_rejected:
  assumes "read_header env s = Some (h, s1)"
    and "hdr_size h < 4 \<or> hdr_size h > 0x2800 \<and> hdr_cmd h \<noteq> 0x4C524F57"
  shows "ProcessIncomingData env now s =
     (False, s1\<lparr>sLog := sLog s1 @ [log_malformed], errno := EINVAL\<rparr>)"
  unfolding ProcessIncomingData_def log_malformed_def
  by (simp only: assms(1) option.case prod.case assms(2) if_True)

lemma accepted_is_not_rejected:
  assumes "read_header env s = Some (h, s1)"
    and "\<not> (hdr_size h < 4 \<or> hdr_size h > 0x2800 \<and> hdr_cmd h \<noteq> 0x4C524F57)"
  shows "sLog (snd (ProcessIncomingData env now s)) \<noteq> sLog s1 @ [log_malformed]"
  unfolding ProcessIncomingData_accepted[OF assms]
  using route_sLog[of env now _ "s1\<lparr>readPosition := readPosition s1 + unat (hdr_size h - 4)\<rparr>"]
  by auto

text \<open>
  Claim C2. Whatever header the first stage yields, kept or freshly decrypted, if its
  opcode is not 0x4C524F57 then \<open>ProcessIncomingData\<close> ends in the framing error (it
  returns false with \<open>errno\<close> set to \<open>EINVAL\<close> and the malformed-packet line logged,
  having decoded and routed nothing) exactly when the declared size is below 4 or above
  0x2800.
\<close>

theorem C2_size_check_other_opcodes:
  assumes "read_header env s = Some (h, s1)"
    and "hdr_cmd h \<noteq> 0x4C524F57"
  shows "ProcessIncomingData env now s =
           (False, s1\<lparr>sLog := sLog s1 @ [log_malformed], errno := EINVAL\<rparr>)
         \<longleftrightarrow> hdr_size h < 4 \<or> hdr_size h > 0x2800"
proof
  assume r: "ProcessIncomingData env now s =
           (False, s1\<lparr>sLog := sLog s1 @ [log_malformed], errno := EINVAL\<rparr>)"
  show "hdr_size h < 4 \<or> hdr_size h > 0x2800"
  proof (rule ccontr)
    assume "\<not> (hdr_size h < 4 \<or> hdr_size h > 0x2800)"
    then have "\<not> (hdr_size h < 4 \<or> hdr_size h > 0x2800 \<and> hdr_cmd h \<noteq> 0x4C524F57)"
      by blast
    from accepted_is_not_rejected[OF assms(1) this, of now] r show False by simp
  qed
next
  assume "hdr_size h < 4 \<or> hdr_size h > 0x2800"
  with assms(2) have "hdr_size h < 4 \<or> hdr_size h > 0x2800 \<and> hdr_cmd h \<noteq> 0x4C524F57"
    by blast
  from ProcessIncomingData_rejected[OF assms(1) this] 
  show "ProcessIncomingData env now s =
           (False, s1\<lparr>sLog := sLog s1 @ [log_malformed], errno := EINVAL\<rparr>)" .
qed

text \<open>The header stage on the two example arrivals.\<close>

lemmas io_defs = receive_def read_header_def Read_def ReadLengthRemaining_def InPeak_def
  DecryptRecv_def ReadSkip_def

lemma ex_arrival_header:
  "read_header ex_env (ex_arrival hi lo) =
     Some (\<lparr>hdr_size = push_bit 8 (ucast hi) OR ucast lo, hdr_cmd = 0x1234\<rparr>,
           (ex_arrival hi lo)\<lparr>readPosition := 6\<rparr>)"
  by (simp add: ex_arrival_def io_defs ex_defs)

lemma ex_legacy_arrival_header:
  "read_header ex_env (ex_legacy_arrival hi lo) =
     Some (\<lparr>hdr_size = push_bit 8 (ucast hi) OR ucast lo, hdr_cmd = 0x4C524F57\<rparr>,
           (ex_legacy_arrival hi lo)\<lparr>readPosition := 6\<rparr>)"
  by (simp add: ex_legacy_arrival_def io_defs ex_defs)

text \<open>The theorem at the sizes 3, 0x2801 and 0x2800 with opcode 0x1234: the first two end
  in the framing error, the third does not.\<close>

theorem C2_witness:
  "ProcessIncomingData ex_env 0 (ex_arrival 0 3) =
     (False, (ex_arrival 0 3)\<lparr>readPosition := 6, sLog := [log_malformed], errno := EINVAL\<rparr>)
   \<and> ProcessIncomingData ex_env 0 (ex_arrival 0x28 1) =
     (False, (ex_arrival 0x28 1)\<lparr>readPosition := 6, sLog := [log_malformed], errno := EINVAL\<rparr>)
   \<and> ProcessIncomingData ex_env 0 (ex_arrival 0x28 0) \<noteq>
     (False, (ex_arrival 0x28 0)\<lparr>readPosition := 6, sLog := [log_malformed], errno := EINVAL\<rparr>)"
proof -
  have l: "sLog ((ex_arrival hi lo)\<lparr>readPosition := 6\<rparr>) = []" for hi lo
    by (simp add: ex_arrival_def receive_def ex_defs)
  have a: "ProcessIncomingData ex_env 0 (ex_arrival 0 3) =
     (False, (ex_arrival 0 3)\<lparr>readPosition := 6, sLog := [log_malformed], errno := EINVAL\<rparr>)"
    using C2_size_check_other_opcodes[OF ex_arrival_header[of 0 3], where now = 0] by (simp add: l)
  have b: "ProcessIncomingData ex_env 0 (ex_arrival 0x28 1) =
     (False, (ex_arrival 0x28 1)\<lparr>readPosition := 6, sLog := [log_malformed], errno := EINVAL\<rparr>)"
    using C2_size_check_other_opcodes[OF ex_arrival_header[of "0x28" 1], where now = 0] by (simp add: l)
  have c: "ProcessIncomingData ex_env 0 (ex_arrival 0x28 0) \<noteq>
     (False, (ex_arrival 0x28 0)\<lparr>readPosition := 6, sLog := [log_malformed], errno := EINVAL\<rparr>)"
    using C2_size_check_other_opcodes[OF ex_arrival_header[of "0x28" 0], where now = 0] by (simp add: l)
  from a b c show ?thesis by blast
qed

text \<open>
  Claim C3, as the code has it. In the size check \<^verbatim>\<open>&&\<close> binds tighter than
  \<^verbatim>\<open>||\<close>, so the opcode 0x4C524F57 is exempt from the upper bound only: a header with
  that opcode ends in the framing error exactly when its declared size is below 4, and
  passes the check with every size from 4 up.
\<close>

theorem C3_size_check_legacy_opcode:
  assumes "read_header env s = Some (h, s1)"
    and "hdr_cmd h = 0x4C524F57"
  shows "ProcessIncomingData env now s =
           (False, s1\<lparr>sLog := sLog s1 @ [log_malformed], errno := EINVAL\<rparr>)
         \<longleftrightarrow> hdr_size h < 4"
proof
  assume r: "ProcessIncomingData env now s =
           (False, s1\<lparr>sLog := sLog s1 @ [log_malformed], errno := EINVAL\<rparr>)"
  show "hdr_size h < 4"
  proof (rule ccontr)
    assume "\<not> hdr_size h < 4"
    with assms(2) have "\<not> (hdr_size h < 4 \<or> hdr_size h > 0x2800 \<and> hdr_cmd h \<noteq> 0x4C524F57)"
      by blast
    from accepted_is_not_rejected[OF assms(1) this, of now] r show False by simp
  qed
next
  assume "hdr_size h < 4"
  then have "hdr_size h < 4 \<or> hdr_size h > 0x2800 \<and> hdr_cmd h \<noteq> 0x4C524F57"
    by blast
  from ProcessIncomingData_rejected[OF assms(1) this] 
  show "ProcessIncomingData env now s =
           (False, s1\<lparr>sLog := sLog s1 @ [log_malformed], errno := EINVAL\<rparr>)" .
qed

text \<open>
  Claim C3 as stated fails: a header with the opcode 0x4C524F57 and the declared size 3
  does not pass the size check. \<open>ProcessIncomingData\<close> ends in the framing error.
\<close>

theorem C3_legacy_opcode_size_3_counterexample:
  "read_header ex_env (ex_legacy_arrival 0 3) =
     Some (\<lparr>hdr_size = 3, hdr_cmd = 0x4C524F57\<rparr>, (ex_legacy_arrival 0 3)\<lparr>readPosition := 6\<rparr>)
   \<and> ProcessIncomingData ex_env 0 (ex_legacy_arrival 0 3) =
     (False, (ex_legacy_arrival 0 3)\<lparr>readPosition := 6, sLog := [log_malformed],
        errno := EINVAL\<rparr>)"
  by (simp add: ProcessIncomingData_def ex_legacy_arrival_def io_defs ex_defs log_defs)

text \<open>The theorem for the opcode 0x4C524F57 at the sizes 3 and 0x2801: the first ends in
  the framing error, the second, above the upper bound, does not.\<close>

theorem C3_witness:
  "ProcessIncomingData ex_env 0 (ex_legacy_arrival 0 3) =
     (False, (ex_legacy_arrival 0 3)\<lparr>readPosition := 6, sLog := [log_malformed], errno := EINVAL\<rparr>)
   \<and> ProcessIncomingData ex_env 0 (ex_legacy_arrival 0x28 1) \<noteq>
     (False, (ex_legacy_arrival 0x28 1)\<lparr>readPosition := 6, sLog := [log_malformed], errno := EINVAL\<rparr>)"
proof -
  have l: "sLog ((ex_legacy_arrival hi lo)\<lparr>readPosition := 6\<rparr>) = []" for hi lo
    by (simp add: ex_legacy_arrival_def receive_def ex_defs)
  have a: "ProcessIncomingData ex_env 0 (ex_legacy_arrival 0 3) =
     (False, (ex_legacy_arrival 0 3)\<lparr>readPosition := 6, sLog := [log_malformed], errno := EINVAL\<rparr>)"
    using C3_size_check_legacy_opcode[OF ex_legacy_arrival_header[of 0 3], where now = 0] by (simp add: l)
  have b: "ProcessIncomingData ex_env 0 (ex_legacy_arrival 0x28 1) \<noteq>
     (False, (ex_legacy_arrival 0x28 1)\<lparr>readPosition := 6, sLog := [log_malformed], errno := EINVAL\<rparr>)"
    using C3_size_check_legacy_opcode[OF ex_legacy_arrival_header[of "0x28" 1], where now = 0] by (simp add: l)
  from a b show ?thesis by blast
qed

text \<open>The default branch of the switch, for any packet and socket.\<close>

lemma route_other_opcodes:
  assumes "m_opcode pct \<noteq> 0x4C524F57"
    and "m_opcode pct \<noteq> CMSG_AUTH_SESSION env"
    and "m_opcode pct \<noteq> CMSG_PING env"
    and "m_opcode pct \<noteq> CMSG_KEEP_ALIVE env"
  shows "route env now pct s =
     (case m_session s of
        None \<Rightarrow>
          (False, s\<lparr>sLog := sLog s @
             [outError ''WorldSocket::ProcessIncomingData: Client not authed opcode = %u'']\<rparr>)
      | Some session \<Rightarrow>
          (True, s\<lparr>m_session := Some (session\<lparr>s_recvQueue := s_recvQueue session @ [pct]\<rparr>)\<rparr>))"
  using assms by (simp add: route_def Let_def split: option.splits)

text \<open>
  The default branch seen from \<open>ProcessIncomingData\<close>. When the header stage yields a
  header that passes the size check, with an opcode that is none of 0x4C524F57,
  \<open>CMSG_AUTH_SESSION\<close>, \<open>CMSG_PING\<close> and \<open>CMSG_KEEP_ALIVE\<close>, whose body is buffered
  completely, on an open socket, then \<open>ProcessIncomingData\<close> consumes the body and
  either, with no session bound, logs that the client is not authenticated and returns
  false, or, with a session bound, appends the packet (the opcode and the body bytes as
  received) to the queue of the session and returns true. No property of the opcode other
  than being outside the four is used. Neither outcome writes \<open>errno\<close>.
\<close>

lemma other_opcodes_need_a_session:
  assumes "read_header env s = Some (h, s1)"
    and "\<not> (hdr_size h < 4 \<or> hdr_size h > 0x2800 \<and> hdr_cmd h \<noteq> 0x4C524F57)"
    and "unat (hdr_size h - 4) \<le> ReadLengthRemaining s1"
    and "\<not> isClosed s1"
    and "hdr_cmd h \<noteq> 0x4C524F57"
    and "hdr_cmd h \<noteq> CMSG_AUTH_SESSION env"
    and "hdr_cmd h \<noteq> CMSG_PING env"
    and "hdr_cmd h \<noteq> CMSG_KEEP_ALIVE env"
  shows "ProcessIncomingData env now s =
     (let pct = \<lparr>m_opcode = hdr_cmd h,
                 storage = (if hdr_size h - 4 \<noteq> 0
                            then [Append (take (unat (hdr_size h - 4)) (InPeak s1))] else [])\<rparr>;
          s2 = s1\<lparr>readPosition := readPosition s1 + unat (hdr_size h - 4)\<rparr>
      in case m_session s1 of
           None \<Rightarrow>
             (False, s2\<lparr>sLog := sLog s1 @
                [outError ''WorldSocket::ProcessIncomingData: Client not authed opcode = %u'']\<rparr>)
         | Some session \<Rightarrow>
             (True, s2\<lparr>m_session :=
                Some (session\<lparr>s_recvQueue := s_recvQueue session @ [pct]\<rparr>)\<rparr>))"
proof -
  let ?pct = "\<lparr>m_opcode = hdr_cmd h,
                 storage = (if hdr_size h - 4 \<noteq> 0
                            then [Append (take (unat (hdr_size h - 4)) (InPeak s1))] else [])\<rparr>"
  let ?s2 = "s1\<lparr>readPosition := readPosition s1 + unat (hdr_size h - 4)\<rparr>"
  have a: "ProcessIncomingData env now s = route env now ?pct ?s2"
    using assms(3,4) unfolding ProcessIncomingData_accepted[OF assms(1,2)]
    by (simp add: not_less)
  have b: "route env now ?pct ?s2 =
      (case m_session ?s2 of
        None \<Rightarrow>
          (False, ?s2\<lparr>sLog := sLog ?s2 @
             [outError ''WorldSocket::ProcessIncomingData: Client not authed opcode = %u'']\<rparr>)
      | Some session \<Rightarrow>
          (True, ?s2\<lparr>m_session := Some (session\<lparr>s_recvQueue := s_recvQueue session @ [?pct]\<rparr>)\<rparr>))"
    by (rule route_other_opcodes) (simp_all add: assms(5-8))
  show ?thesis
    unfolding a b Let_def by (cases "m_session s1") simp_all
qed

text \<open>
  The message with opcode 0x1234 and body 1, 2, 3: sent in clear to the unauthenticated
  socket it is refused, and sent encrypted to the authenticated socket it is queued.
\<close>

lemma ex_authed_header:
  "read_header ex_env (receive (ex_wire_header @ ex_body) ex_socket_authed) =
     Some (ex_header, (receive (ex_wire_header @ ex_body) ex_socket_authed)
                        \<lparr>readPosition := 6, m_crypt := Some 6\<rparr>)"
  by (simp add: io_defs ex_defs ex_defs2)

lemma other_opcodes_examples:
  "ProcessIncomingData ex_env 0 (receive ex_body (ex_arrival 0 7)) =
     (False, (receive ex_body (ex_arrival 0 7))
        \<lparr>readPosition := 9,
          sLog := [outError ''WorldSocket::ProcessIncomingData: Client not authed opcode = %u'']\<rparr>)
   \<and> ProcessIncomingData ex_env 0 (receive (ex_wire_header @ ex_body) ex_socket_authed) =
     (True, (receive (ex_wire_header @ ex_body) ex_socket_authed)
        \<lparr>readPosition := 9, m_crypt := Some 6,
          m_session := Some (ex_session\<lparr>s_recvQueue :=
            [\<lparr>m_opcode = 0x1234, storage = [Append [1, 2, 3]]\<rparr>]\<rparr>)\<rparr>)"
proof -
  have h1: "read_header ex_env (receive ex_body (ex_arrival 0 7)) =
     Some (ex_header, (receive ex_body (ex_arrival 0 7))\<lparr>readPosition := 6\<rparr>)"
    by (simp add: ex_arrival_def io_defs ex_defs ex_defs2)
  have side:
    "\<not> (hdr_size ex_header < 4 \<or> hdr_size ex_header > 0x2800 \<and> hdr_cmd ex_header \<noteq> 0x4C524F57)"
    "hdr_cmd ex_header \<noteq> 0x4C524F57"
    "hdr_cmd ex_header \<noteq> CMSG_AUTH_SESSION ex_env"
    "hdr_cmd ex_header \<noteq> CMSG_PING ex_env"
    "hdr_cmd ex_header \<noteq> CMSG_KEEP_ALIVE ex_env"
    by (simp_all add: ex_defs ex_defs2)
  have avail1:
    "unat (hdr_size ex_header - 4)
       \<le> ReadLengthRemaining ((receive ex_body (ex_arrival 0 7))\<lparr>readPosition := 6\<rparr>)"
    "\<not> isClosed ((receive ex_body (ex_arrival 0 7))\<lparr>readPosition := 6\<rparr>)"
    by (simp_all add: ex_arrival_def io_defs ex_defs ex_defs2)
  have avail2:
    "unat (hdr_size ex_header - 4)
       \<le> ReadLengthRemaining ((receive (ex_wire_header @ ex_body) ex_socket_authed)
                        \<lparr>readPosition := 6, m_crypt := Some 6\<rparr>)"
    "\<not> isClosed ((receive (ex_wire_header @ ex_body) ex_socket_authed)
                        \<lparr>readPosition := 6, m_crypt := Some 6\<rparr>)"
    by (simp_all add: io_defs ex_defs ex_defs2)
  have a: "ProcessIncomingData ex_env 0 (receive ex_body (ex_arrival 0 7)) =
     (False, (receive ex_body (ex_arrival 0 7))
        \<lparr>readPosition := 9,
          sLog := [outError ''WorldSocket::ProcessIncomingData: Client not authed opcode = %u'']\<rparr>)"
    unfolding other_opcodes_need_a_session[OF h1 side(1) avail1 side(2-5)]
    by (simp add: ex_arrival_def io_defs ex_defs ex_defs2)
  have b: "ProcessIncomingData ex_env 0 (receive (ex_wire_header @ ex_body) ex_socket_authed) =
     (True, (receive (ex_wire_header @ ex_body) ex_socket_authed)
        \<lparr>readPosition := 9, m_crypt := Some 6,
          m_session := Some (ex_session\<lparr>s_recvQueue :=
            [\<lparr>m_opcode = 0x1234, storage = [Append [1, 2, 3]]\<rparr>]\<rparr>)\<rparr>)"
    unfolding other_opcodes_need_a_session[OF ex_authed_header side(1) avail2 side(2-5)]
    by (simp add: io_defs ex_defs ex_defs2)
  from a b show ?thesis by blast
qed

text \<open>
  The header stage leaves \<open>errno\<close> alone, and so does the refusal of a client that is not
  authenticated: the call returns false with \<open>errno\<close> as it was before the call.
\<close>

lemma read_header_errno:
  assumes "read_header env s = Some (h, s1)"
  shows "errno s1 = errno s"
  using assms
  by (auto simp: read_header_def Read_def ReadSkip_def Let_def
      split: if_splits option.splits prod.splits)

lemma not_authed_leaves_errno:
  assumes "read_header env s = Some (h, s1)"
    and "\<not> (hdr_size h < 4 \<or> hdr_size h > 0x2800 \<and> hdr_cmd h \<noteq> 0x4C524F57)"
    and "unat (hdr_size h - 4) \<le> ReadLengthRemaining s1"
    and "\<not> isClosed s1"
    and "hdr_cmd h \<noteq> 0x4C524F57"
    and "hdr_cmd h \<noteq> CMSG_AUTH_SESSION env"
    and "hdr_cmd h \<noteq> CMSG_PING env"
    and "hdr_cmd h \<noteq> CMSG_KEEP_ALIVE env"
    and "m_session s1 = None"
  shows "fst (ProcessIncomingData env now s) = False
       \<and> errno (snd (ProcessIncomingData env now s)) = errno s"
  unfolding other_opcodes_need_a_session[OF assms(1-8)]
  using assms(9) read_header_errno[OF assms(1)] by (simp add: Let_def)

text \<open>
  Claim C7 at the input where the code departs from it. The client that is not
  authenticated sends the message with opcode 0x1234 and body 1, 2, 3 in two pieces: the
  six header bytes with the first body byte, then the other two body bytes. The first call
  returns false with \<open>errno\<close> set to \<open>EBADMSG\<close>, which is how the function asks to be
  called again when more data has arrived (lines 187 to 198). The second call decodes the
  message, logs that the client is not authenticated and returns false, and \<open>errno\<close> is
  still \<open>EBADMSG\<close>: the refusal hands back the same verdict and the same \<open>errno\<close> as
  the request to wait, and the socket is not closed. The same message arriving in one
  piece is refused with \<open>errno\<close> as it was before the call.
\<close>

theorem C7_not_authed_after_split_delivery_signals_wait:
  "ProcessIncomingData ex_env 0 (receive (take 1 ex_body) (ex_arrival 0 7)) =
     (False, (receive (take 1 ex_body) (ex_arrival 0 7))
        \<lparr>m_useExistingHeader := True, m_existingHeader := ex_header, errno := EBADMSG\<rparr>)
   \<and> ProcessIncomingData ex_env 0
       (receive (drop 1 ex_body)
          ((receive (take 1 ex_body) (ex_arrival 0 7))
             \<lparr>m_useExistingHeader := True, m_existingHeader := ex_header, errno := EBADMSG\<rparr>)) =
     (False, (receive ex_body (ex_arrival 0 7))
        \<lparr>readPosition := 9, m_existingHeader := ex_header, errno := EBADMSG,
          sLog := [outError ''WorldSocket::ProcessIncomingData: Client not authed opcode = %u'']\<rparr>)
   \<and> isClosed ((receive ex_body (ex_arrival 0 7))
        \<lparr>readPosition := 9, m_existingHeader := ex_header, errno := EBADMSG,
          sLog := [outError ''WorldSocket::ProcessIncomingData: Client not authed opcode = %u'']\<rparr>)
       = False
   \<and> ProcessIncomingData ex_env 0 (receive ex_body (ex_arrival 0 7)) =
     (False, (receive ex_body (ex_arrival 0 7))
        \<lparr>readPosition := 9,
          sLog := [outError ''WorldSocket::ProcessIncomingData: Client not authed opcode = %u'']\<rparr>)
   \<and> errno (receive ex_body (ex_arrival 0 7)) = E_OTHER"
  by (simp add: ProcessIncomingData_def route_def Let_def ex_arrival_def io_defs ex_defs
      ex_defs2 WorldPacket_new_def put_def)

section \<open>A message that arrives in two pieces\<close>

text \<open>
  The cipher returns as many bytes as it is given. The header stage on a socket with no
  kept header and six bytes buffered, and on a socket with a kept header.
\<close>

lemma crypt_bytes_length: "crypt_bytes f c bs = (out, c') \<Longrightarrow> length out = length bs"
  by (induction bs arbitrary: c out c') (auto split: prod.splits)

lemma DecryptRecv_length: "DecryptRecv env c bs = (out, c') \<Longrightarrow> length out = length bs"
  by (auto simp: DecryptRecv_def split: option.splits prod.splits dest: crypt_bytes_length)

lemma read_header_fresh:
  assumes "\<not> m_useExistingHeader s"
    and "6 \<le> ReadLengthRemaining s"
    and "DecryptRecv env (m_crypt s) (take 6 (InPeak s)) = (plain, c')"
  shows "read_header env s =
     Some (ClientPktHeader_of_bytes plain, s\<lparr>readPosition := readPosition s + 6, m_crypt := c'\<rparr>)"
  using assms by (simp add: read_header_def Read_def not_less)

lemma read_header_kept:
  assumes "m_useExistingHeader s"
  shows "read_header env s =
     Some (m_existingHeader s, s\<lparr>m_useExistingHeader := False, readPosition := readPosition s + 6\<rparr>)"
  using assms by (simp add: read_header_def ReadSkip_def Let_def nat_add_distrib)

text \<open>
  Nothing that \<open>route\<close> does reads or writes the kept header or \<open>errno\<close>: routing on a
  socket in which the two are overwritten is routing on the socket and overwriting them
  afterwards.
\<close>

lemma stamp_sel:
  "inBuffer (stamp h e s) = inBuffer s"
  "readPosition (stamp h e s) = readPosition s"
  "isClosed (stamp h e s) = isClosed s"
  "outBuffer (stamp h e s) = outBuffer s"
  "remoteAddress (stamp h e s) = remoteAddress s"
  "m_crypt (stamp h e s) = m_crypt s"
  "m_lastPingTime (stamp h e s) = m_lastPingTime s"
  "m_overSpeedPings (stamp h e s) = m_overSpeedPings s"
  "m_useExistingHeader (stamp h e s) = m_useExistingHeader s"
  "m_session (stamp h e s) = m_session s"
  "m_seed (stamp h e s) = m_seed s"
  "m_s (stamp h e s) = m_s s"
  "sLog (stamp h e s) = sLog s"
  "account_logons (stamp h e s) = account_logons s"
  "world_sessions (stamp h e s) = world_sessions s"
  by (simp_all add: stamp_def)

lemma stamp_upd:
  "(stamp h e s)\<lparr>outBuffer := a1\<rparr> = stamp h e (s\<lparr>outBuffer := a1\<rparr>)"
  "(stamp h e s)\<lparr>m_crypt := a2\<rparr> = stamp h e (s\<lparr>m_crypt := a2\<rparr>)"
  "(stamp h e s)\<lparr>m_lastPingTime := a3\<rparr> = stamp h e (s\<lparr>m_lastPingTime := a3\<rparr>)"
  "(stamp h e s)\<lparr>m_overSpeedPings := a4\<rparr> = stamp h e (s\<lparr>m_overSpeedPings := a4\<rparr>)"
  "(stamp h e s)\<lparr>m_session := a5\<rparr> = stamp h e (s\<lparr>m_session := a5\<rparr>)"
  "(stamp h e s)\<lparr>m_s := a6\<rparr> = stamp h e (s\<lparr>m_s := a6\<rparr>)"
  "(stamp h e s)\<lparr>sLog := a7\<rparr> = stamp h e (s\<lparr>sLog := a7\<rparr>)"
  "(stamp h e s)\<lparr>account_logons := a8\<rparr> = stamp h e (s\<lparr>account_logons := a8\<rparr>)"
  "(stamp h e s)\<lparr>world_sessions := a9\<rparr> = stamp h e (s\<lparr>world_sessions := a9\<rparr>)"
  by (simp_all add: stamp_def)

lemma SendPacket_stamp:
  "SendPacket env p i (stamp h e s) = stamp h e (SendPacket env p i s)"
  by (simp add: SendPacket_def Let_def stamp_sel stamp_upd split: prod.splits)

lemma respond_stamp:
  "respond env p l (stamp h e s) = stamp h e (respond env p l s)"
  by (simp add: respond_def Let_def SendPacket_stamp stamp_sel stamp_upd)

lemma HandleAuthSession_stamp:
  "HandleAuthSession env pct (stamp h e s) =
     map_sum id (map_prod id (stamp h e)) (HandleAuthSession env pct s)"
proof (cases "read_auth_session (received_bytes pct)")
  case None
  then show ?thesis by (simp add: HandleAuthSession_def)
next
  case (Some f)
  show ?thesis
    unfolding HandleAuthSession_result[OF Some]
    by (simp add: stamp_sel stamp_upd respond_stamp split: option.splits)
qed

lemma HandlePing_stamp:
  "HandlePing env now pct (stamp h e s) =
     map_sum id (map_prod id (stamp h e)) (HandlePing env now pct s)"
  by (simp add: HandlePing_def Let_def stamp_sel stamp_upd SendPacket_stamp
      split: option.splits prod.splits)

lemma route_stamp:
  "route env now pct (stamp h e s) = map_prod id (stamp h e) (route env now pct s)"
  unfolding route_def Let_def HandleAuthSession_stamp HandlePing_stamp
  by (simp add: HandleWowConnection_def Let_def stamp_sel stamp_upd SendPacket_stamp
      split: option.splits sum.splits ByteBufferException.splits)


lemma unused_flag: "\<not> m_useExistingHeader s \<Longrightarrow> s\<lparr>m_useExistingHeader := False\<rparr> = s"
  by (cases s) simp

lemma ProcessIncomingData_waiting:
  assumes "read_header env s = Some (h, s1)"
    and "\<not> (hdr_size h < 4 \<or> hdr_size h > 0x2800 \<and> hdr_cmd h \<noteq> 0x4C524F57)"
    and "ReadLengthRemaining s1 < unat (hdr_size h - 4)"
    and "s' = s1\<lparr>readPosition := readPosition s1 - 6, m_useExistingHeader := True,
                  m_existingHeader := h, errno := EBADMSG\<rparr>"
  shows "ProcessIncomingData env now s = (False, s')"
  unfolding ProcessIncomingData_accepted[OF assms(1,2)] using assms(3,4) by simp

lemma ProcessIncomingData_routed:
  assumes "read_header env s = Some (h, s1)"
    and "\<not> (hdr_size h < 4 \<or> hdr_size h > 0x2800 \<and> hdr_cmd h \<noteq> 0x4C524F57)"
    and "unat (hdr_size h - 4) \<le> ReadLengthRemaining s1"
    and "\<not> isClosed s1"
    and "pct = \<lparr>m_opcode = hdr_cmd h,
                 storage = (if hdr_size h - 4 \<noteq> 0
                            then [Append (take (unat (hdr_size h - 4)) (InPeak s1))] else [])\<rparr>"
    and "s2 = s1\<lparr>readPosition := readPosition s1 + unat (hdr_size h - 4)\<rparr>"
  shows "ProcessIncomingData env now s = route env now pct s2"
  unfolding ProcessIncomingData_accepted[OF assms(1,2)] using assms(3-6) by (simp add: not_less)

text \<open>
  Claim C4. A socket that is open, keeps no header and has nothing unread receives the
  six header bytes of a message and the first \<open>k\<close> bytes of its body, \<open>k\<close> being less
  than the length of the body; the header, decrypted, passes the size check and declares
  the body's length. The first call of \<open>ProcessIncomingData\<close> returns false with
  \<open>EBADMSG\<close>, having decrypted the header (the cipher is in the state \<open>crypt1\<close> that
  one \<open>DecryptRecv\<close> of the six bytes gives), kept it, and left the read position where
  it was; no packet is built. After the rest of the body has arrived the second call
  routes one packet, with the opcode of the header and the whole body, on a socket whose
  read position is past the message and whose cipher is still in the state \<open>crypt1\<close>:
  the header is not decrypted again. The whole message arriving at once routes the same
  packet on the same socket, up to the kept header and \<open>errno\<close>, and so the two
  deliveries end with the same verdict and the same socket up to those two fields.
\<close>

theorem C4_split_delivery_decodes_once:
  assumes "\<not> m_useExistingHeader s0"
    and "readPosition s0 = length (inBuffer s0)"
    and "\<not> isClosed s0"
    and "length hdr = 6"
    and "DecryptRecv env (m_crypt s0) hdr = (plain, crypt1)"
    and "h = ClientPktHeader_of_bytes plain"
    and "\<not> (hdr_size h < 4 \<or> hdr_size h > 0x2800 \<and> hdr_cmd h \<noteq> 0x4C524F57)"
    and "length body = unat (hdr_size h - 4)"
    and "k < length body"
  shows
    "(let first = ProcessIncomingData env now (receive (hdr @ take k body) s0);
          second = ProcessIncomingData env now (receive (drop k body) (snd first));
          whole = ProcessIncomingData env now (receive (hdr @ body) s0);
          pct = \<lparr>m_opcode = hdr_cmd h, storage = [Append body]\<rparr>;
          decoded = (receive (hdr @ body) s0)
                      \<lparr>readPosition := readPosition s0 + 6 + length body, m_crypt := crypt1\<rparr>
      in first = (False, (receive (hdr @ take k body) s0)
                    \<lparr>m_crypt := crypt1, m_useExistingHeader := True, m_existingHeader := h,
                      errno := EBADMSG\<rparr>)
       \<and> whole = route env now pct decoded
       \<and> second = route env now pct (decoded\<lparr>m_existingHeader := h, errno := EBADMSG\<rparr>)
       \<and> second = map_prod id (\<lambda>s. s\<lparr>m_existingHeader := h, errno := EBADMSG\<rparr>) whole)"
proof -
  let ?s1 = "receive (hdr @ take k body) s0"
  let ?sw = "receive (hdr @ body) s0"
  let ?pct = "\<lparr>m_opcode = hdr_cmd h, storage = [Append body]\<rparr>"
  let ?decoded = "?sw\<lparr>readPosition := readPosition s0 + 6 + length body, m_crypt := crypt1\<rparr>"
  let ?waiting = "?s1\<lparr>m_crypt := crypt1, m_useExistingHeader := True,
                   m_existingHeader := h, errno := EBADMSG\<rparr>"
  let ?s2 = "receive (drop k body) ?waiting"
  have n0: "hdr_size h - 4 \<noteq> 0"
    using assms(8,9) by auto
  have h1: "read_header env ?s1 =
      Some (h, ?s1\<lparr>readPosition := readPosition ?s1 + 6, m_crypt := crypt1\<rparr>)"
    unfolding assms(6)
    by (rule read_header_fresh)
       (simp_all add: receive_def ReadLengthRemaining_def InPeak_def assms(1,2,4,5))
  have first: "ProcessIncomingData env now ?s1 = (False, ?waiting)"
  proof (rule ProcessIncomingData_waiting[OF h1 assms(7)])
    show "ReadLengthRemaining (?s1\<lparr>readPosition := readPosition ?s1 + 6, m_crypt := crypt1\<rparr>)
        < unat (hdr_size h - 4)"
      using assms(2,4,8,9) by (simp add: receive_def ReadLengthRemaining_def)
    show "?waiting = (?s1\<lparr>readPosition := readPosition ?s1 + 6, m_crypt := crypt1\<rparr>)
        \<lparr>readPosition := readPosition (?s1\<lparr>readPosition := readPosition ?s1 + 6, m_crypt := crypt1\<rparr>) - 6,
          m_useExistingHeader := True, m_existingHeader := h, errno := EBADMSG\<rparr>"
      by (cases s0) (simp add: receive_def)
  qed
  have hw: "read_header env ?sw =
      Some (h, ?sw\<lparr>readPosition := readPosition ?sw + 6, m_crypt := crypt1\<rparr>)"
    unfolding assms(6)
    by (rule read_header_fresh)
       (simp_all add: receive_def ReadLengthRemaining_def InPeak_def assms(1,2,4,5))
  have whole: "ProcessIncomingData env now ?sw = route env now ?pct ?decoded"
  proof (rule ProcessIncomingData_routed[OF hw assms(7)])
    show "unat (hdr_size h - 4)
        \<le> ReadLengthRemaining (?sw\<lparr>readPosition := readPosition ?sw + 6, m_crypt := crypt1\<rparr>)"
      using assms(2,4,8) by (simp add: receive_def ReadLengthRemaining_def)
    show "\<not> isClosed (?sw\<lparr>readPosition := readPosition ?sw + 6, m_crypt := crypt1\<rparr>)"
      using assms(3) by (simp add: receive_def)
    show "?pct = \<lparr>m_opcode = hdr_cmd h,
        storage = (if hdr_size h - 4 \<noteq> 0
          then [Append (take (unat (hdr_size h - 4))
                 (InPeak (?sw\<lparr>readPosition := readPosition ?sw + 6, m_crypt := crypt1\<rparr>)))]
          else [])\<rparr>"
      using assms(2,4,8) n0 by (simp add: receive_def InPeak_def)
    show "?decoded = (?sw\<lparr>readPosition := readPosition ?sw + 6, m_crypt := crypt1\<rparr>)
        \<lparr>readPosition := readPosition (?sw\<lparr>readPosition := readPosition ?sw + 6, m_crypt := crypt1\<rparr>)
           + unat (hdr_size h - 4)\<rparr>"
      using assms(8) by (cases s0) (simp add: receive_def)
  qed
  have h2: "read_header env ?s2 =
      Some (h, ?s2\<lparr>m_useExistingHeader := False, readPosition := readPosition ?s2 + 6\<rparr>)"
    using read_header_kept[of ?s2 env] by (simp add: receive_def)
  have second: "ProcessIncomingData env now ?s2 =
      route env now ?pct (?decoded\<lparr>m_existingHeader := h, errno := EBADMSG\<rparr>)"
  proof (rule ProcessIncomingData_routed[OF h2 assms(7)])
    show "unat (hdr_size h - 4)
        \<le> ReadLengthRemaining (?s2\<lparr>m_useExistingHeader := False, readPosition := readPosition ?s2 + 6\<rparr>)"
      using assms(2,4,8) by (simp add: receive_def ReadLengthRemaining_def)
    show "\<not> isClosed (?s2\<lparr>m_useExistingHeader := False, readPosition := readPosition ?s2 + 6\<rparr>)"
      using assms(3) by (simp add: receive_def)
    show "?pct = \<lparr>m_opcode = hdr_cmd h,
        storage = (if hdr_size h - 4 \<noteq> 0
          then [Append (take (unat (hdr_size h - 4))
                 (InPeak (?s2\<lparr>m_useExistingHeader := False, readPosition := readPosition ?s2 + 6\<rparr>)))]
          else [])\<rparr>"
      using assms(2,4,8) n0 by (simp add: receive_def InPeak_def)
    show "?decoded\<lparr>m_existingHeader := h, errno := EBADMSG\<rparr> =
        (?s2\<lparr>m_useExistingHeader := False, readPosition := readPosition ?s2 + 6\<rparr>)
        \<lparr>readPosition := readPosition (?s2\<lparr>m_useExistingHeader := False, readPosition := readPosition ?s2 + 6\<rparr>)
           + unat (hdr_size h - 4)\<rparr>"
      using assms(1,2,8) by (cases s0) (simp add: receive_def)
  qed
  have commute: "route env now ?pct (?decoded\<lparr>m_existingHeader := h, errno := EBADMSG\<rparr>)
      = map_prod id (\<lambda>s. s\<lparr>m_existingHeader := h, errno := EBADMSG\<rparr>) (route env now ?pct ?decoded)"
    using route_stamp[of env now ?pct h EBADMSG ?decoded]
    by (simp add: stamp_def[abs_def])
  show ?thesis
    unfolding Let_def first snd_conv second whole commute by simp
qed

text \<open>
  The theorem at the authenticated example socket, whose cipher has processed no byte:
  the header of the message with opcode 0x1234 arrives with one of the three body bytes,
  then the other two. After the first call the cipher has processed six bytes; the second
  call ends as the delivery in one piece does, with the packet queued once and the cipher
  still at six bytes.
\<close>

theorem C4_witness:
  "ProcessIncomingData ex_env 0 (receive (ex_wire_header @ take 1 ex_body) ex_socket_authed) =
     (False, (receive (ex_wire_header @ take 1 ex_body) ex_socket_authed)
        \<lparr>m_crypt := Some 6, m_useExistingHeader := True, m_existingHeader := ex_header,
          errno := EBADMSG\<rparr>)
   \<and> ProcessIncomingData ex_env 0
       (receive (drop 1 ex_body)
         ((receive (ex_wire_header @ take 1 ex_body) ex_socket_authed)
            \<lparr>m_crypt := Some 6, m_useExistingHeader := True, m_existingHeader := ex_header,
              errno := EBADMSG\<rparr>)) =
     map_prod id (\<lambda>s. s\<lparr>m_existingHeader := ex_header, errno := EBADMSG\<rparr>)
       (ProcessIncomingData ex_env 0 (receive (ex_wire_header @ ex_body) ex_socket_authed))
   \<and> ProcessIncomingData ex_env 0 (receive (ex_wire_header @ ex_body) ex_socket_authed) =
       (True, (receive (ex_wire_header @ ex_body) ex_socket_authed)
          \<lparr>readPosition := 9, m_crypt := Some 6,
            m_session := Some (ex_session\<lparr>s_recvQueue :=
              [\<lparr>m_opcode = 0x1234, storage = [Append [1, 2, 3]]\<rparr>]\<rparr>)\<rparr>)"
proof -
  have hyps:
    "\<not> m_useExistingHeader ex_socket_authed"
    "readPosition ex_socket_authed = length (inBuffer ex_socket_authed)"
    "\<not> isClosed ex_socket_authed"
    "length ex_wire_header = 6"
    "DecryptRecv ex_env (m_crypt ex_socket_authed) ex_wire_header
       = ([0, 7, 0x34, 0x12, 0, 0], Some 6)"
    "ex_header = ClientPktHeader_of_bytes [0, 7, 0x34, 0x12, 0, 0]"
    "\<not> (hdr_size ex_header < 4 \<or> hdr_size ex_header > 0x2800 \<and> hdr_cmd ex_header \<noteq> 0x4C524F57)"
    "length ex_body = unat (hdr_size ex_header - 4)"
    "1 < length ex_body"
    by (simp_all add: ex_defs ex_defs2 DecryptRecv_def)
  note t = C4_split_delivery_decodes_once[OF hyps, of 0, unfolded Let_def]
  have whole: "route ex_env 0 \<lparr>m_opcode = hdr_cmd ex_header, storage = [Append ex_body]\<rparr>
       ((receive (ex_wire_header @ ex_body) ex_socket_authed)
          \<lparr>readPosition := readPosition ex_socket_authed + 6 + length ex_body, m_crypt := Some 6\<rparr>)
     = (True, (receive (ex_wire_header @ ex_body) ex_socket_authed)
          \<lparr>readPosition := 9, m_crypt := Some 6,
            m_session := Some (ex_session\<lparr>s_recvQueue :=
              [\<lparr>m_opcode = 0x1234, storage = [Append [1, 2, 3]]\<rparr>]\<rparr>)\<rparr>)"
    by (simp add: route_def Let_def ex_defs ex_defs2 receive_def)
  note f = t[THEN conjunct1]
  note s = t[THEN conjunct2, THEN conjunct2, THEN conjunct2, unfolded f snd_conv]
  note w = trans[OF t[THEN conjunct2, THEN conjunct1] whole]
  from f s w show ?thesis by (intro conjI)
qed

section \<open>The overspeed count before the first ping\<close>

text \<open>
  The hypothesis of the theorem on pings, that the overspeed count is 0 as long as no
  ping has been seen, holds of every socket the constructor returns and is kept by every
  call of \<open>ProcessIncomingData\<close>, whatever the message, as long as the clock never reads
  \<^verbatim>\<open>time_point::min()\<close>: only \<open>HandlePing\<close> writes the two fields, and it records the
  clock reading.
\<close>

lemma respond_ping_fields:
  "m_lastPingTime (respond env p e s) = m_lastPingTime s"
  "m_overSpeedPings (respond env p e s) = m_overSpeedPings s"
  by (simp_all add: respond_def Let_def SendPacket_sel)

lemma HandleAuthSession_ping_fields:
  assumes "HandleAuthSession env pct s = Inr (ok, s')"
  shows "m_lastPingTime s' = m_lastPingTime s \<and> m_overSpeedPings s' = m_overSpeedPings s"
proof (cases "read_auth_session (received_bytes pct)")
  case None
  with assms show ?thesis by (simp add: HandleAuthSession_def)
next
  case (Some f)
  from assms show ?thesis
    unfolding HandleAuthSession_result[OF Some]
    by (auto simp: respond_ping_fields split: if_splits option.splits)
qed

lemma HandlePing_records_time:
  assumes "HandlePing env now pct s = Inr (ok, s')"
  shows "m_lastPingTime s' = now"
  using assms
  by (auto simp: HandlePing_def Let_def SendPacket_sel split: if_splits option.splits prod.splits)

lemma ping_invariant_constructor:
  "m_lastPingTime (WorldSocket_init address seed) = time_point_min \<longrightarrow>
   m_overSpeedPings (WorldSocket_init address seed) = 0"
  by (simp add: WorldSocket_init_def)

lemma ping_invariant_route:
  assumes "now \<noteq> time_point_min"
    and "m_lastPingTime s = time_point_min \<longrightarrow> m_overSpeedPings s = 0"
  shows "m_lastPingTime (snd (route env now pct s)) = time_point_min \<longrightarrow>
         m_overSpeedPings (snd (route env now pct s)) = 0"
proof -
  have auth: "m_lastPingTime s' = time_point_min \<longrightarrow> m_overSpeedPings s' = 0"
    if "HandleAuthSession env pct s = Inr (ok, s')" for ok s'
    using HandleAuthSession_ping_fields[OF that] assms(2) by simp
  have ping: "m_lastPingTime s' = time_point_min \<longrightarrow> m_overSpeedPings s' = 0"
    if "HandlePing env now pct s = Inr (ok, s')" for ok s'
    using HandlePing_records_time[OF that] assms(1) by simp
  show ?thesis
    using assms(2)
    by (auto simp: route_def Let_def HandleWowConnection_def SendPacket_sel
        split: sum.splits option.splits ByteBufferException.splits if_splits
        dest: auth ping)
qed

lemma ping_invariant_ProcessIncomingData:
  assumes "now \<noteq> time_point_min"
    and "m_lastPingTime s = time_point_min \<longrightarrow> m_overSpeedPings s = 0"
  shows "m_lastPingTime (snd (ProcessIncomingData env now s)) = time_point_min \<longrightarrow>
         m_overSpeedPings (snd (ProcessIncomingData env now s)) = 0"
proof (cases "read_header env s")
  case None
  with assms(2) show ?thesis by (simp add: ProcessIncomingData_def)
next
  case (Some p)
  obtain h s1 where p: "p = (h, s1)" by (cases p)
  have s1: "m_lastPingTime s1 = m_lastPingTime s" "m_overSpeedPings s1 = m_overSpeedPings s"
    using Some p
    by (auto simp: read_header_def Read_def ReadSkip_def Let_def
        split: if_splits option.splits prod.splits)
  show ?thesis
  proof (cases "hdr_size h < 4 \<or> hdr_size h > 0x2800 \<and> hdr_cmd h \<noteq> 0x4C524F57")
    case True
    show ?thesis
      unfolding ProcessIncomingData_rejected[OF Some[unfolded p] True]
      using assms(2) s1 by simp
  next
    case False
    show ?thesis
      unfolding ProcessIncomingData_accepted[OF Some[unfolded p] False]
      using assms(2) s1
        ping_invariant_route[OF assms(1), of
          "s1\<lparr>readPosition := readPosition s1 + unat (hdr_size h - 4)\<rparr>" env]
      by simp
  qed
qed

end
